theory Spec2Isabelle
  imports Main
begin

section \<open>JavaScript values\<close>

text \<open>
  The values that flow through \<^verbatim>\<open>AppOperation.ts\<close>: parsed JSON bodies, query parameter
  values, notification messages and the envelopes the gateway returns. An object is the
  list of its own properties in the order \<^verbatim>\<open>Object.keys\<close> enumerates them. A number is
  an integer of magnitude below \<open>10\<^sup>2\<^sup>1\<close>, where \<^verbatim>\<open>String\<close> gives all its digits (other
  numbers are not values of this type); strings are byte strings. These are plain data:
  what a caller may pass beyond them (a Symbol, a BigInt, a function, a cyclic object) is
  added where the caller's arguments are modelled.
\<close>

datatype jsval =
    JUndefined
  | JNull
  | JBool bool
  | JNum int
  | JStr string
  | JArr "jsval list"
  | JObj "(string \<times> jsval) list"

text \<open>A thrown \<^verbatim>\<open>Error\<close>: its name and its \<^verbatim>\<open>message\<close>.\<close>

datatype thrown = Thrown (error_name: string) (error_message: string)

fun join :: "string \<Rightarrow> string list \<Rightarrow> string" where
  "join sep [] = []"
| "join sep [x] = x"
| "join sep (x # y # ys) = x @ sep @ join sep (y # ys)"

definition digit_char :: "nat \<Rightarrow> char" where
  "digit_char d = ''0123456789'' ! d"

fun string_of_nat :: "nat \<Rightarrow> string" where
  "string_of_nat n =
     (if n < 10 then [digit_char n] else string_of_nat (n div 10) @ [digit_char (n mod 10)])"

declare string_of_nat.simps [simp del]

definition number_to_string :: "int \<Rightarrow> string" where
  "number_to_string i =
     (if i < 0 then CHR ''-'' # string_of_nat (nat (- i)) else string_of_nat (nat i))"

text \<open>\<^verbatim>\<open>String(v)\<close>, which a template literal and \<^verbatim>\<open>+\<close> on a string apply.\<close>

fun toString :: "jsval \<Rightarrow> string" where
  "toString JUndefined = ''undefined''"
| "toString JNull = ''null''"
| "toString (JBool b) = (if b then ''true'' else ''false'')"
| "toString (JNum n) = number_to_string n"
| "toString (JStr s) = s"
| "toString (JArr xs) =
     join '','' (map (\<lambda>x. if x = JUndefined \<or> x = JNull then [] else toString x) xs)"
| "toString (JObj ps) = ''[object Object]''"

fun truthy :: "jsval \<Rightarrow> bool" where
  "truthy JUndefined = False"
| "truthy JNull = False"
| "truthy (JBool b) = b"
| "truthy (JNum n) = (n \<noteq> 0)"
| "truthy (JStr s) = (s \<noteq> [])"
| "truthy (JArr xs) = True"
| "truthy (JObj ps) = True"

definition nullish :: "jsval \<Rightarrow> bool" where
  "nullish v = (v = JUndefined \<or> v = JNull)"

text \<open>
  Property access. \<^verbatim>\<open>v[k]\<close> on \<^verbatim>\<open>undefined\<close> or \<^verbatim>\<open>null\<close> throws a TypeError (the text
  of its message is the engine's; V8's is used). On any other value it reads the own
  property \<^verbatim>\<open>k\<close>: an element of an array or a character of a string under the decimal
  name of its index, \<^verbatim>\<open>length\<close>, a field of an object; anything else is \<^verbatim>\<open>undefined\<close>.
  Inherited members of the built-in prototypes are functions and are not values of type
  \<^typ>\<open>jsval\<close>; the source reads none of them from a parsed body.
\<close>

definition cannot_read :: "jsval \<Rightarrow> string \<Rightarrow> thrown" where
  "cannot_read v k =
     Thrown ''TypeError''
       (''Cannot read properties of '' @ toString v @ '' (reading '' @ [CHR 0x27] @ k @ [CHR 0x27] @ '')'')"

fun own_property :: "jsval \<Rightarrow> string \<Rightarrow> jsval" where
  "own_property (JObj ps) k = (case map_of ps k of None \<Rightarrow> JUndefined | Some v \<Rightarrow> v)"
| "own_property (JArr xs) k =
     (case find (\<lambda>i. string_of_nat i = k) [0..<length xs] of
        Some i \<Rightarrow> xs ! i
      | None \<Rightarrow> if k = ''length'' then JNum (int (length xs)) else JUndefined)"
| "own_property (JStr s) k =
     (case find (\<lambda>i. string_of_nat i = k) [0..<length s] of
        Some i \<Rightarrow> JStr [s ! i]
      | None \<Rightarrow> if k = ''length'' then JNum (int (length s)) else JUndefined)"
| "own_property v k = JUndefined"

definition get_property :: "jsval \<Rightarrow> string \<Rightarrow> thrown + jsval" where
  "get_property v k = (if nullish v then Inl (cannot_read v k) else Inr (own_property v k))"

text \<open>Optional chaining, \<^verbatim>\<open>v?.k\<close>.\<close>

definition get_optional :: "jsval \<Rightarrow> string \<Rightarrow> jsval" where
  "get_optional v k = (if nullish v then JUndefined else own_property v k)"

fun Object_keys :: "jsval \<Rightarrow> thrown + string list" where
  "Object_keys JUndefined = Inl (Thrown ''TypeError'' ''Cannot convert undefined or null to object'')"
| "Object_keys JNull = Inl (Thrown ''TypeError'' ''Cannot convert undefined or null to object'')"
| "Object_keys (JObj ps) = Inr (map fst ps)"
| "Object_keys (JArr xs) = Inr (map string_of_nat [0..<length xs])"
| "Object_keys (JStr s) = Inr (map string_of_nat [0..<length s])"
| "Object_keys v = Inr []"

text \<open>\<^verbatim>\<open>keys[0]\<close> used as a property name: the first key, or \<^verbatim>\<open>undefined\<close> as a string.\<close>

definition first_key :: "string list \<Rightarrow> string" where
  "first_key ks = (case ks of [] \<Rightarrow> ''undefined'' | k # _ \<Rightarrow> k)"

text \<open>\<^verbatim>\<open>String.prototype.includes\<close>.\<close>

fun starts_with :: "string \<Rightarrow> string \<Rightarrow> bool" where
  "starts_with s [] = True"
| "starts_with [] (c # cs) = False"
| "starts_with (d # ds) (c # cs) = (d = c \<and> starts_with ds cs)"

fun includes_str :: "string \<Rightarrow> string \<Rightarrow> bool" where
  "includes_str [] t = (t = [])"
| "includes_str (c # cs) t = (starts_with (c # cs) t \<or> includes_str cs t)"

section \<open>The header set\<close>

text \<open>
  The platform's \<^verbatim>\<open>Headers\<close> object, as the Fetch standard defines it: a list of
  name/value pairs in the order they were appended. Names are compared without regard
  to case, so the list keeps them in lower case, as the object's own iteration shows
  them. \<^verbatim>\<open>append\<close> strips leading and trailing HTTP whitespace from the value and
  throws a TypeError on a name that is not a token or a value holding NUL, LF or CR; it
  never replaces an entry. \<^verbatim>\<open>get\<close> joins all values of a name with a comma and a space.
\<close>

type_synonym headers = "(string \<times> string) list"

definition lower_char :: "char \<Rightarrow> char" where
  "lower_char c =
     (case find (\<lambda>(u, l). u = c)
             (zip ''ABCDEFGHIJKLMNOPQRSTUVWXYZ'' ''abcdefghijklmnopqrstuvwxyz'') of
        Some (u, l) \<Rightarrow> l
      | None \<Rightarrow> c)"

definition lowercase :: "string \<Rightarrow> string" where
  "lowercase s = map lower_char s"

definition is_token_char :: "char \<Rightarrow> bool" where
  "is_token_char c =
     (c \<in> set ''abcdefghijklmnopqrstuvwxyzABCDEFGHIJKLMNOPQRSTUVWXYZ0123456789''
      \<or> c \<in> set [CHR 0x21, CHR 0x23, CHR 0x24, CHR 0x25, CHR 0x26, CHR 0x27, CHR 0x2A,
                   CHR 0x2B, CHR 0x2D, CHR 0x2E, CHR 0x5E, CHR 0x5F, CHR 0x60, CHR 0x7C,
                   CHR 0x7E])"

definition valid_header_name :: "string \<Rightarrow> bool" where
  "valid_header_name name = (name \<noteq> [] \<and> list_all is_token_char name)"

definition http_whitespace :: "char \<Rightarrow> bool" where
  "http_whitespace c = (c \<in> set [CHR 0x09, CHR 0x0A, CHR 0x0D, CHR 0x20])"

definition normalize_value :: "string \<Rightarrow> string" where
  "normalize_value v = rev (dropWhile http_whitespace (rev (dropWhile http_whitespace v)))"

definition valid_header_value :: "string \<Rightarrow> bool" where
  "valid_header_value v = list_all (\<lambda>c. c \<notin> set [CHR 0x00, CHR 0x0A, CHR 0x0D]) v"

definition headers_append :: "string \<Rightarrow> string \<Rightarrow> headers \<Rightarrow> thrown + headers" where
  "headers_append name v hs =
     (if valid_header_name name \<and> valid_header_value (normalize_value v)
      then Inr (hs @ [(lowercase name, normalize_value v)])
      else Inl (Thrown ''TypeError'' ''Invalid header name or value''))"

definition headers_delete :: "string \<Rightarrow> headers \<Rightarrow> thrown + headers" where
  "headers_delete name hs =
     (if valid_header_name name
      then Inr (filter (\<lambda>(n, v). n \<noteq> lowercase name) hs)
      else Inl (Thrown ''TypeError'' ''Invalid header name or value''))"

definition headers_get :: "string \<Rightarrow> headers \<Rightarrow> string option" where
  "headers_get name hs =
     (let vs = map snd (filter (\<lambda>(n, v). n = lowercase name) hs)
      in if vs = [] then None else Some (join '', '' vs))"

section \<open>Effects and outcomes\<close>

text \<open>
  The calls that leave the gateway are recorded in the order they happen: the dynamic
  header provider, the notification callback and the transport primitive. A computation
  yields what it returned or threw, and the calls it made up to that point.
\<close>

datatype http_method = GET | POST | PUT | PATCH | DELETE

datatype toast_type = ToastSuccess | ToastError

text \<open>
  The body of the options handed to the transport: the form payload itself, or the text
  \<^verbatim>\<open>JSON.stringify\<close> has given. For plain data \<open>JSON_stringify v\<close> stands for that text (on
  a value of \<^typ>\<open>jsval\<close> that is not \<^verbatim>\<open>undefined\<close> the serializer gives one); for any other
  object the text is carried as it is.
\<close>

datatype request_body =
    FormDataBody "(string \<times> string) list"
  | JSON_stringify jsval
  | JSON_text string

record request_options =
  options_method :: http_method
  options_headers :: headers
  options_body :: "request_body option"

datatype event =
    DynamicHeaders
  | ShowToast toast_type jsval
  | Fetch string request_options

type_synonym 'a outcome = "(thrown + 'a) \<times> event list"

definition returns :: "'a \<Rightarrow> 'a outcome" where
  "returns x = (Inr x, [])"

definition throws :: "thrown \<Rightarrow> 'a outcome" where
  "throws e = (Inl e, [])"

definition lift :: "thrown + 'a \<Rightarrow> 'a outcome" where
  "lift r = (r, [])"

definition emit :: "event list \<Rightarrow> unit outcome" where
  "emit es = (Inr (), es)"

definition and_then :: "'a outcome \<Rightarrow> ('a \<Rightarrow> 'b outcome) \<Rightarrow> 'b outcome" where
  "and_then m f =
     (case m of
        (Inl e, es) \<Rightarrow> (Inl e, es)
      | (Inr x, es) \<Rightarrow> (case f x of (r, es') \<Rightarrow> (r, es @ es')))"

text \<open>The notification calls among the recorded ones, and the transport calls.\<close>

fun toasts :: "event list \<Rightarrow> (toast_type \<times> jsval) list" where
  "toasts [] = []"
| "toasts (ShowToast t m # es) = (t, m) # toasts es"
| "toasts (e # es) = toasts es"

fun fetches :: "event list \<Rightarrow> (string \<times> request_options) list" where
  "fetches [] = []"
| "fetches (Fetch u opts # es) = (u, opts) # fetches es"
| "fetches (e # es) = fetches es"

text \<open>
  The transport primitive: \<^verbatim>\<open>fetch(url, options)\<close> throws or gives a response, whose
  \<^verbatim>\<open>json()\<close> throws or gives the parsed body.
\<close>

datatype response = Response (json: "thrown + jsval")

type_synonym transport = "string \<Rightarrow> request_options \<Rightarrow> thrown + response"

section \<open>The gateway\<close>

record AppOperationRequest =
  method' :: http_method
  url :: string

text \<open>
  The fields of the class. The registry and the static headers are objects, kept as the
  lists of their own entries. The dynamic header provider and the notification handler
  belong to the host application; they are taken at their types: the provider returns
  its entries, the handler returns nothing, and neither throws.
\<close>

record AppOperation =
  baseUrl :: string
  requests :: "(string \<times> AppOperationRequest) list"
  staticHeaders :: "(string \<times> string) list"
  getDynamicHeaders :: "(unit \<Rightarrow> (string \<times> string) list) option"
  showToast :: "(toast_type \<Rightarrow> jsval \<Rightarrow> unit) option"

text \<open>\<^verbatim>\<open>this.showToast?.(type, message)\<close>\<close>

definition toast :: "AppOperation \<Rightarrow> toast_type \<Rightarrow> jsval \<Rightarrow> event list" where
  "toast g t m = (case showToast g of None \<Rightarrow> [] | Some h \<Rightarrow> [ShowToast t m])"

subsection \<open>Headers, body and query string\<close>

text \<open>\<^verbatim>\<open>Object.entries(o).forEach(([key, value]) => headers.append(key, value))\<close>\<close>

fun append_entries :: "(string \<times> string) list \<Rightarrow> headers \<Rightarrow> thrown + headers" where
  "append_entries [] hs = Inr hs"
| "append_entries ((k, v) # es) hs =
     (case headers_append k v hs of
        Inl e \<Rightarrow> Inl e
      | Inr hs' \<Rightarrow> append_entries es hs')"

definition build_headers :: "AppOperation \<Rightarrow> headers outcome" where
  "build_headers g =
     and_then (lift (headers_append ''Content-Type'' ''application/json'' [])) (\<lambda>h0.
     and_then (lift (append_entries (staticHeaders g) h0)) (\<lambda>h1.
       case getDynamicHeaders g of
         None \<Rightarrow> returns h1
       | Some resolver \<Rightarrow>
           and_then (emit [DynamicHeaders]) (\<lambda>_. lift (append_entries (resolver ()) h1))))"

text \<open>
  The \<^verbatim>\<open>body\<close> argument. The source looks at it three times: \<^verbatim>\<open>if (body)\<close>,
  \<^verbatim>\<open>body instanceof FormData\<close> and \<^verbatim>\<open>JSON.stringify(body)\<close>. It is a form payload, plain
  data, or any other object (a cyclic one, one that holds a BigInt or has a \<^verbatim>\<open>toJSON\<close>, a
  function), which is truthy and known by what \<^verbatim>\<open>JSON.stringify\<close> does on it: the error it
  throws, the text it returns, or \<^verbatim>\<open>undefined\<close>.
\<close>

datatype body_arg =
    FormData "(string \<times> string) list"
  | PlainObject jsval
  | OtherObject "thrown + string option"

definition attach_body ::
    "body_arg option \<Rightarrow> headers \<Rightarrow> thrown + headers \<times> request_body option" where
  "attach_body body hs =
     (case body of
        None \<Rightarrow> Inr (hs, None)
      | Some (FormData fd) \<Rightarrow>
          (case headers_delete ''Content-Type'' hs of
             Inl e \<Rightarrow> Inl e
           | Inr h1 \<Rightarrow>
               (case headers_append ''Content-Type'' ''multipart/form-data'' h1 of
                  Inl e \<Rightarrow> Inl e
                | Inr h2 \<Rightarrow> Inr (h2, Some (FormDataBody fd))))
      | Some (PlainObject v) \<Rightarrow>
          (if truthy v then Inr (hs, Some (JSON_stringify v)) else Inr (hs, None))
      | Some (OtherObject stringified) \<Rightarrow>
          (case stringified of
             Inl e \<Rightarrow> Inl e
           | Inr text \<Rightarrow> Inr (hs, map_option JSON_text text)))"

text \<open>
  The value of a query parameter is of type \<^verbatim>\<open>any\<close>: plain data, or any other value (a
  Symbol, a BigInt, a number that prints in exponent form, an object with a \<^verbatim>\<open>toString\<close>
  of its own or with none), which is neither \<^verbatim>\<open>undefined\<close> nor \<^verbatim>\<open>null\<close> and is known by
  what \<^verbatim>\<open>String\<close> does on it: the error it throws or the text it gives. The \<^verbatim>\<open>params\<close>
  object is the list of its own entries; reading an entry does not throw.
\<close>

datatype param = Plain jsval | Other "thrown + string"

text \<open>The conversion a template literal applies, \<^verbatim>\<open>`${v}`\<close>.\<close>

fun String_of :: "param \<Rightarrow> thrown + string" where
  "String_of (Plain v) = Inr (toString v)"
| "String_of (Other stringified) = stringified"

text \<open>\<^verbatim>\<open>params[key]\<close>\<close>

definition param_value :: "(string \<times> param) list \<Rightarrow> string \<Rightarrow> param" where
  "param_value params key =
     (case map_of params key of None \<Rightarrow> Plain JUndefined | Some v \<Rightarrow> v)"

text \<open>
  The \<^verbatim>\<open>forEach((key, i) => ...)\<close> over the kept keys, from index \<open>i\<close> on; a conversion
  that throws ends it.
\<close>

fun append_params ::
    "(string \<times> param) list \<Rightarrow> string list \<Rightarrow> nat \<Rightarrow> string \<Rightarrow> thrown + string" where
  "append_params params [] i parsedParams = Inr parsedParams"
| "append_params params (key # keys) i parsedParams =
     (case String_of (param_value params key) of
        Inl e \<Rightarrow> Inl e
      | Inr text \<Rightarrow>
          append_params params keys (Suc i)
            (if i = 0 then parsedParams @ ''?'' @ key @ ''='' @ text
             else parsedParams @ ''&'' @ key @ ''='' @ text))"

definition kept_keys :: "(string \<times> param) list \<Rightarrow> string list" where
  "kept_keys params =
     filter (\<lambda>key. param_value params key \<noteq> Plain JUndefined
                  \<and> param_value params key \<noteq> Plain JNull)
       (map fst params)"

definition parse_params :: "(string \<times> param) list option \<Rightarrow> thrown + string" where
  "parse_params params =
     (case params of
        None \<Rightarrow> Inr []
      | Some ps \<Rightarrow> append_params ps (kept_keys ps) 0 [])"

subsection \<open>Notifications after a parsed response\<close>

text \<open>
  \<^verbatim>\<open>data?.errors ? data.errors[Object.keys(data.errors)[0]][0] : data?.message\<close>
\<close>

definition first_error_message :: "jsval \<Rightarrow> thrown + jsval" where
  "first_error_message data =
     (if truthy (get_optional data ''errors'') then
        (case get_property data ''errors'' of
           Inl e \<Rightarrow> Inl e
         | Inr errors \<Rightarrow>
             (case Object_keys errors of
                Inl e \<Rightarrow> Inl e
              | Inr keys \<Rightarrow>
                  (case get_property errors (first_key keys) of
                     Inl e \<Rightarrow> Inl e
                   | Inr messages \<Rightarrow> get_property messages ''0'')))
      else Inr (get_optional data ''message''))"

text \<open>The first \<^verbatim>\<open>if\<close> of the \<^verbatim>\<open>try\<close> block: a success notification on status 200 or 201.\<close>

definition notify_success :: "AppOperation \<Rightarrow> bool \<Rightarrow> jsval \<Rightarrow> unit outcome" where
  "notify_success g suppressToast data =
     (if suppressToast then returns ()
      else
        and_then (lift (get_property data ''status'')) (\<lambda>status.
          if status = JNum 200 \<or> status = JNum 201 then
            (if truthy (get_optional data ''message'') then
               and_then (lift (get_property data ''message'')) (\<lambda>message.
                 emit (toast g ToastSuccess message))
             else returns ())
          else returns ()))"

text \<open>The \<^verbatim>\<open>if / else if / else if\<close> chain on the statuses 422, 400 and 500.\<close>

definition notify_error :: "AppOperation \<Rightarrow> bool \<Rightarrow> jsval \<Rightarrow> unit outcome" where
  "notify_error g suppressToast data =
     and_then (lift (get_property data ''status'')) (\<lambda>status.
       if status = JNum 422 \<and> \<not> suppressToast then
         and_then (lift (first_error_message data)) (\<lambda>message.
           if truthy message then emit (toast g ToastError message) else returns ())
       else if status = JNum 400 \<and> \<not> suppressToast \<and> truthy (get_optional data ''message'') then
         and_then (lift (get_property data ''message'')) (\<lambda>message.
           emit (toast g ToastError message))
       else if status = JNum 500 \<and> \<not> suppressToast \<and> truthy (get_optional data ''message'') then
         and_then (lift (get_property data ''message'')) (\<lambda>message.
           emit (toast g ToastError message))
       else returns ())"

subsection \<open>The low-level request handler\<close>

definition try_block ::
    "transport \<Rightarrow> AppOperation \<Rightarrow> bool \<Rightarrow> string \<Rightarrow> request_options \<Rightarrow> jsval outcome" where
  "try_block fetch g suppressToast fullUrl options =
     and_then (emit [Fetch fullUrl options]) (\<lambda>_.
     and_then (lift (fetch fullUrl options)) (\<lambda>response.
     and_then (lift (json response)) (\<lambda>data.
     and_then (notify_success g suppressToast data) (\<lambda>_.
     and_then (notify_error g suppressToast data) (\<lambda>_.
     returns data)))))"

text \<open>\<^verbatim>\<open>_error?.message || "Unknown error"\<close>\<close>

definition errorMessage_of :: "thrown \<Rightarrow> string" where
  "errorMessage_of e = (if error_message e = [] then ''Unknown error'' else error_message e)"

definition userMessage_of :: "string \<Rightarrow> string" where
  "userMessage_of errorMessage =
     (if includes_str errorMessage ''Network request failed''
         \<or> includes_str errorMessage ''Failed to fetch''
      then ''Network error. Please check your connection.''
      else if includes_str errorMessage ''JSON'' then ''Invalid response from server''
      else ''Something went wrong'')"

definition catch_block :: "AppOperation \<Rightarrow> bool \<Rightarrow> thrown \<Rightarrow> jsval outcome" where
  "catch_block g suppressToast e =
     (let errorMessage = errorMessage_of e;
          userMessage = userMessage_of errorMessage
      in and_then (emit (if suppressToast then [] else toast g ToastError (JStr userMessage))) (\<lambda>_.
         returns (JObj [(''status'', JNum 500),
                        (''message'', JStr userMessage),
                        (''error'', JStr errorMessage)])))"

definition try_catch :: "jsval outcome \<Rightarrow> (thrown \<Rightarrow> jsval outcome) \<Rightarrow> jsval outcome" where
  "try_catch m handler =
     (case m of
        (Inl e, es) \<Rightarrow> (case handler e of (r, es') \<Rightarrow> (r, es @ es'))
      | (Inr x, es) \<Rightarrow> (Inr x, es))"

definition config_errorMsg :: string where
  "config_errorMsg =
     ''API base URL is not configured. Please set the baseUrl when constructing AppOperation.''"

definition sendRequest ::
    "transport \<Rightarrow> AppOperation \<Rightarrow> string \<Rightarrow> http_method \<Rightarrow> bool
       \<Rightarrow> (string \<times> param) list option \<Rightarrow> body_arg option \<Rightarrow> jsval outcome" where
  "sendRequest fetch g path m suppressToast params body =
     (if baseUrl g = [] then
        and_then
          (emit (if suppressToast then [] else toast g ToastError (JStr ''API configuration error'')))
          (\<lambda>_. returns (JObj [(''status'', JNum 500), (''message'', JStr config_errorMsg)]))
      else
        and_then (build_headers g) (\<lambda>hs.
        and_then (lift (attach_body body hs)) (\<lambda>(hs', b).
        and_then (lift (parse_params params)) (\<lambda>parsedParams.
          let options = \<lparr>options_method = m, options_headers = hs', options_body = b\<rparr>
          in try_catch
               (try_block fetch g suppressToast (baseUrl g @ path @ parsedParams) options)
               (catch_block g suppressToast)))))"

subsection \<open>The entry point\<close>

definition delete' :: "transport \<Rightarrow> AppOperation \<Rightarrow> string \<Rightarrow> bool \<Rightarrow> jsval outcome" where
  "delete' fetch g path suppressToast = sendRequest fetch g path DELETE suppressToast None None"

definition get' ::
    "transport \<Rightarrow> AppOperation \<Rightarrow> string \<Rightarrow> (string \<times> param) list option \<Rightarrow> jsval outcome" where
  "get' fetch g path params = sendRequest fetch g path GET True params None"

definition patch ::
    "transport \<Rightarrow> AppOperation \<Rightarrow> string \<Rightarrow> body_arg option \<Rightarrow> bool \<Rightarrow> jsval outcome" where
  "patch fetch g path body suppressToast = sendRequest fetch g path PATCH suppressToast None body"

definition post ::
    "transport \<Rightarrow> AppOperation \<Rightarrow> string \<Rightarrow> body_arg option \<Rightarrow> bool \<Rightarrow> jsval outcome" where
  "post fetch g path body suppressToast = sendRequest fetch g path POST suppressToast None body"

definition put ::
    "transport \<Rightarrow> AppOperation \<Rightarrow> string \<Rightarrow> body_arg option \<Rightarrow> bool \<Rightarrow> jsval outcome" where
  "put fetch g path body suppressToast = sendRequest fetch g path PUT suppressToast None body"

text \<open>
  \<^verbatim>\<open>this.requests[request]\<close>: an own entry of the registry, a member the registry object
  inherits from \<^verbatim>\<open>Object.prototype\<close> (which has neither \<^verbatim>\<open>url\<close> nor \<^verbatim>\<open>method\<close>), or
  \<^verbatim>\<open>undefined\<close>.
\<close>

datatype registry_entry = Own AppOperationRequest | Inherited | Absent

definition object_prototype_names :: "string list" where
  "object_prototype_names =
     [''constructor'', ''hasOwnProperty'', ''isPrototypeOf'', ''propertyIsEnumerable'',
      ''toLocaleString'', ''toString'', ''valueOf'', ''__proto__'', ''__defineGetter__'',
      ''__defineSetter__'', ''__lookupGetter__'', ''__lookupSetter__'']"

definition registry_lookup :: "AppOperation \<Rightarrow> string \<Rightarrow> registry_entry" where
  "registry_lookup g request =
     (case map_of (requests g) request of
        Some r \<Rightarrow> Own r
      | None \<Rightarrow> if request \<in> set object_prototype_names then Inherited else Absent)"

datatype ident = IdNumber int | IdString string

fun ident_to_string :: "ident \<Rightarrow> string" where
  "ident_to_string (IdNumber n) = number_to_string n"
| "ident_to_string (IdString s) = s"

record request_args =
  body :: "body_arg option"
  params :: "(string \<times> param) list option"
  id' :: "ident option"
  request :: string
  suppressToast :: "bool option"
  pathExtension :: "string option"

definition or_default :: "'a option \<Rightarrow> 'a \<Rightarrow> 'a" where
  "or_default x d = (case x of None \<Rightarrow> d | Some v \<Rightarrow> v)"

definition basePath_of :: "AppOperationRequest \<Rightarrow> request_args \<Rightarrow> string" where
  "basePath_of r args =
     url r @ ident_to_string (or_default (id' args) (IdString [])) @ or_default (pathExtension args) []"

definition getRequest :: "transport \<Rightarrow> AppOperation \<Rightarrow> request_args \<Rightarrow> jsval outcome" where
  "getRequest fetch g args =
     (case registry_lookup g (request args) of
        Absent \<Rightarrow> throws (cannot_read JUndefined ''url'')
      | Inherited \<Rightarrow> throws (Thrown ''Error'' ''Unsupported method undefined'')
      | Own r \<Rightarrow>
          (let basePath = basePath_of r args;
               suppress = or_default (suppressToast args) False
           in case method' r of
                DELETE \<Rightarrow> delete' fetch g basePath suppress
              | GET \<Rightarrow> get' fetch g basePath (params args)
              | PATCH \<Rightarrow> patch fetch g basePath (body args) suppress
              | POST \<Rightarrow> post fetch g basePath (body args) suppress
              | PUT \<Rightarrow> put fetch g basePath (body args) suppress))"

subsection \<open>Construction and configuration\<close>

record AppOperation_options =
  options_staticHeaders :: "(string \<times> string) list option"
  options_getDynamicHeaders :: "(unit \<Rightarrow> (string \<times> string) list) option"
  options_showToast :: "(toast_type \<Rightarrow> jsval \<Rightarrow> unit) option"

definition new_AppOperation ::
    "string \<Rightarrow> (string \<times> AppOperationRequest) list \<Rightarrow> AppOperation_options option \<Rightarrow> AppOperation" where
  "new_AppOperation base reqs options =
     \<lparr>baseUrl = base,
      requests = reqs,
      staticHeaders = (case options of None \<Rightarrow> [] | Some opts \<Rightarrow> or_default (options_staticHeaders opts) []),
      getDynamicHeaders = (case options of None \<Rightarrow> None | Some opts \<Rightarrow> options_getDynamicHeaders opts),
      showToast = (case options of None \<Rightarrow> None | Some opts \<Rightarrow> options_showToast opts)\<rparr>"

definition setDynamicHeadersResolver ::
    "(unit \<Rightarrow> (string \<times> string) list) \<Rightarrow> AppOperation \<Rightarrow> AppOperation" where
  "setDynamicHeadersResolver resolver g = g\<lparr>getDynamicHeaders := Some resolver\<rparr>"

definition setToastHandler :: "(toast_type \<Rightarrow> jsval \<Rightarrow> unit) \<Rightarrow> AppOperation \<Rightarrow> AppOperation" where
  "setToastHandler handler g = g\<lparr>showToast := Some handler\<rparr>"

text \<open>
  The instance of \<^verbatim>\<open>api.ts\<close>, from the two environment variables
  \<^verbatim>\<open>EXPO_PUBLIC_API_URL\<close> and \<^verbatim>\<open>EXPO_PUBLIC_SYSTEM_KEY\<close>.
\<close>

definition api_requests :: "(string \<times> AppOperationRequest) list" where
  "api_requests =
     [(''login'', \<lparr>method' = POST, url = ''auth/login''\<rparr>),
      (''get_profile'', \<lparr>method' = GET, url = ''profile/''\<rparr>)]"

definition appOperation :: "string option \<Rightarrow> string option \<Rightarrow> AppOperation" where
  "appOperation api_url system_key =
     new_AppOperation (or_default api_url ''https://example.com/api/v1/'') api_requests
       (Some \<lparr>options_staticHeaders =
                 Some (case system_key of
                         None \<Rightarrow> []
                       | Some k \<Rightarrow> if k = [] then [] else [(''System-Key'', k)]),
               options_getDynamicHeaders = None,
               options_showToast = None\<rparr>)"

text \<open>A call that names only the operation, as \<^verbatim>\<open>getRequest({ request })\<close>.\<close>

definition request_only :: "string \<Rightarrow> request_args" where
  "request_only op =
     \<lparr>body = None, params = None, id' = None, request = op, suppressToast = None,
      pathExtension = None\<rparr>"

text \<open>Transports for concrete runs: one that answers every call with a body, two that fail.\<close>

definition responds :: "jsval \<Rightarrow> transport" where
  "responds data = (\<lambda>u opts. Inr (Response (Inr data)))"

definition fetch_throws :: "thrown \<Rightarrow> transport" where
  "fetch_throws e = (\<lambda>u opts. Inl e)"

definition json_throws :: "thrown \<Rightarrow> transport" where
  "json_throws e = (\<lambda>u opts. Inr (Response (Inl e)))"

text \<open>A dynamic header provider that gives the same entries on every call.\<close>

definition constant_resolver :: "(string \<times> string) list \<Rightarrow> unit \<Rightarrow> (string \<times> string) list" where
  "constant_resolver entries u = entries"

definition silent_handler :: "toast_type \<Rightarrow> jsval \<Rightarrow> unit" where
  "silent_handler t m = ()"

section \<open>Observations on a run\<close>

text \<open>The entries the dynamic header provider gives on a call (none without a provider).\<close>

definition dynamicHeaders_of :: "AppOperation \<Rightarrow> (string \<times> string) list" where
  "dynamicHeaders_of g = (case getDynamicHeaders g of None \<Rightarrow> [] | Some resolver \<Rightarrow> resolver ())"

text \<open>An entry the header set accepts, and the entry as the header set stores it.\<close>

definition entry_accepted :: "string \<times> string \<Rightarrow> bool" where
  "entry_accepted kv = (valid_header_name (fst kv) \<and> valid_header_value (normalize_value (snd kv)))"

definition stored_entry :: "string \<times> string \<Rightarrow> string \<times> string" where
  "stored_entry kv = (lowercase (fst kv), normalize_value (snd kv))"

text \<open>The header sets and the addresses handed to the transport.\<close>

definition sent_headers :: "event list \<Rightarrow> headers list" where
  "sent_headers es = map (\<lambda>(u, opts). options_headers opts) (fetches es)"

definition sent_urls :: "event list \<Rightarrow> string list" where
  "sent_urls es = map fst (fetches es)"

definition sent_bodies :: "event list \<Rightarrow> request_body option list" where
  "sent_bodies es = map (\<lambda>(u, opts). options_body opts) (fetches es)"

text \<open>
  A value that \<^verbatim>\<open>String\<close> converts, and the text it gives (empty for a value on which it
  throws: the statements use the text only where it does not).
\<close>

definition printable :: "param \<Rightarrow> bool" where
  "printable v = (case String_of v of Inl e \<Rightarrow> False | Inr text \<Rightarrow> True)"

definition printed :: "param \<Rightarrow> string" where
  "printed v = (case String_of v of Inl e \<Rightarrow> [] | Inr text \<Rightarrow> text)"

definition is_plain :: "param \<Rightarrow> bool" where
  "is_plain v = (case v of Plain x \<Rightarrow> True | Other stringified \<Rightarrow> False)"

text \<open>Every kept query parameter converts to a string.\<close>

definition params_printable :: "(string \<times> param) list option \<Rightarrow> bool" where
  "params_printable given =
     (case given of
        None \<Rightarrow> True
      | Some ps \<Rightarrow> list_all (\<lambda>key. printable (param_value ps key)) (kept_keys ps))"

text \<open>A body on which the body step does not throw.\<close>

definition body_serializable :: "body_arg option \<Rightarrow> bool" where
  "body_serializable given =
     (case given of
        Some (OtherObject (Inl e)) \<Rightarrow> False
      | _ \<Rightarrow> True)"

text \<open>
  The query string in the words of the specification: the entries whose value is neither
  \<^verbatim>\<open>undefined\<close> nor \<^verbatim>\<open>null\<close>, in order, as \<^verbatim>\<open>key=value\<close> joined by \<^verbatim>\<open>&\<close> after a leading
  \<^verbatim>\<open>?\<close>; nothing is escaped. It is empty when no entry is left.
\<close>

definition spec_query_string :: "(string \<times> param) list \<Rightarrow> string" where
  "spec_query_string ps =
     (let kept = filter (\<lambda>(k, v). v \<noteq> Plain JUndefined \<and> v \<noteq> Plain JNull) ps
      in if kept = [] then []
         else ''?'' @ join ''&'' (map (\<lambda>(k, v). k @ ''='' @ printed v) kept))"

text \<open>The envelope a caught exception is converted into.\<close>

definition error_envelope :: "string \<Rightarrow> string \<Rightarrow> jsval" where
  "error_envelope userMessage errorMessage =
     JObj [(''status'', JNum 500), (''message'', JStr userMessage), (''error'', JStr errorMessage)]"

section \<open>Outcomes and recorded calls\<close>

lemma toasts_append: "toasts (es @ es') = toasts es @ toasts es'"
  by (induction es rule: toasts.induct) simp_all

lemma fetches_append: "fetches (es @ es') = fetches es @ fetches es'"
  by (induction es rule: fetches.induct) simp_all

lemma toasts_toast: "toasts (toast g t m) = (if showToast g = None then [] else [(t, m)])"
  by (simp add: toast_def split: option.splits)

lemma fetches_toast: "fetches (toast g t m) = []"
  by (simp add: toast_def split: option.splits)

lemma snd_and_then:
  "snd (and_then m f) = (case fst m of Inl e \<Rightarrow> snd m | Inr x \<Rightarrow> snd m @ snd (f x))"
  by (simp add: and_then_def split: prod.splits sum.splits)

lemma fst_and_then:
  "fst (and_then m f) = (case fst m of Inl e \<Rightarrow> Inl e | Inr x \<Rightarrow> fst (f x))"
  by (simp add: and_then_def split: prod.splits sum.splits)

lemma snd_try_catch:
  "snd (try_catch m h) = (case fst m of Inl e \<Rightarrow> snd m @ snd (h e) | Inr x \<Rightarrow> snd m)"
  by (simp add: try_catch_def split: prod.splits sum.splits)

lemma fst_try_catch:
  "fst (try_catch m h) = (case fst m of Inl e \<Rightarrow> fst (h e) | Inr x \<Rightarrow> Inr x)"
  by (simp add: try_catch_def split: prod.splits sum.splits)

lemma fetches_and_then:
  "fetches (snd (and_then m f)) =
     (case fst m of Inl e \<Rightarrow> fetches (snd m) | Inr x \<Rightarrow> fetches (snd m) @ fetches (snd (f x)))"
  by (simp add: snd_and_then fetches_append split: sum.splits)

lemma toasts_and_then:
  assumes "toasts (snd m) = []" and "\<And>x. toasts (snd (f x)) = []"
  shows "toasts (snd (and_then m f)) = []"
  using assms by (simp add: snd_and_then toasts_append split: sum.splits)

lemma toasts_try_catch:
  assumes "toasts (snd m) = []" and "\<And>e. toasts (snd (h e)) = []"
  shows "toasts (snd (try_catch m h)) = []"
  using assms by (simp add: snd_try_catch toasts_append split: sum.splits)

lemma toasts_lift: "toasts (snd (lift r)) = []"
  by (simp add: lift_def)

lemma toasts_returns: "toasts (snd (returns x)) = []"
  by (simp add: returns_def)

section \<open>The dispatch of \<^verbatim>\<open>getRequest\<close>\<close>

lemma getRequest_Own:
  assumes "map_of (requests g) (request args) = Some r"
  shows "getRequest fetch g args =
     (case method' r of
        DELETE \<Rightarrow>
          sendRequest fetch g (basePath_of r args) DELETE
            (or_default (suppressToast args) False) None None
      | GET \<Rightarrow> sendRequest fetch g (basePath_of r args) GET True (params args) None
      | m \<Rightarrow>
          sendRequest fetch g (basePath_of r args) m
            (or_default (suppressToast args) False) None (body args))"
  using assms
  by (simp add: getRequest_def registry_lookup_def Let_def delete'_def get'_def patch_def
                post_def put_def
           split: http_method.splits)

lemma getRequest_not_Own:
  assumes "map_of (requests g) (request args) = None"
  shows "getRequest fetch g args =
     (Inl (if request args \<in> set object_prototype_names
           then Thrown ''Error'' ''Unsupported method undefined''
           else cannot_read JUndefined ''url''), [])"
  using assms by (simp add: getRequest_def registry_lookup_def throws_def)

text \<open>
  C3. An operation identifier that is not a key of the registry makes \<^verbatim>\<open>getRequest\<close>
  fail with a thrown error, and nothing has happened by then: the dynamic header
  provider, the notification callback and the transport have not been called. The
  error is the TypeError of reading \<^verbatim>\<open>url\<close> from \<^verbatim>\<open>undefined\<close>, or, for a name the
  registry object inherits, the "Unsupported method" error of the dispatch.
\<close>

theorem getRequest_unknown_operation:
  assumes "map_of (requests g) (request args) = None"
  shows "getRequest fetch g args =
     (Inl (if request args \<in> set object_prototype_names
           then Thrown ''Error'' ''Unsupported method undefined''
           else cannot_read JUndefined ''url''), [])"
  using assms by (rule getRequest_not_Own)

theorem getRequest_unknown_operation_witness:
  "map_of (requests (appOperation None None)) (request (request_only ''does-not-exist'')) = None
   \<and> getRequest (responds JNull) (appOperation None None) (request_only ''does-not-exist'')
       = (Inl (cannot_read JUndefined ''url''), [])"
proof -
  have h: "map_of (requests (appOperation None None)) (request (request_only ''does-not-exist''))
             = None"
    by (simp add: appOperation_def new_AppOperation_def api_requests_def request_only_def)
  have "request (request_only ''does-not-exist'') \<notin> set object_prototype_names"
    by (simp add: request_only_def object_prototype_names_def)
  with getRequest_unknown_operation [OF h, of "responds JNull"] h show ?thesis
    by simp
qed

section \<open>Notifications\<close>

lemma toasts_build_headers: "toasts (snd (build_headers g)) = []"
  unfolding build_headers_def
  by (intro toasts_and_then toasts_lift)
     (simp_all add: toasts_and_then toasts_lift toasts_returns emit_def split: option.splits)

lemma toasts_notify_success: "toasts (snd (notify_success g True data)) = []"
  by (simp add: notify_success_def toasts_returns)

lemma toasts_notify_error: "toasts (snd (notify_error g True data)) = []"
  unfolding notify_error_def
  by (intro toasts_and_then toasts_lift) (simp add: toasts_returns)

lemma toasts_try_block: "toasts (snd (try_block fetch g True u opts)) = []"
  unfolding try_block_def
  by (intro toasts_and_then toasts_lift toasts_returns toasts_notify_success toasts_notify_error)
     (simp add: emit_def)

lemma toasts_catch_block: "toasts (snd (catch_block g True e)) = []"
  by (simp add: catch_block_def Let_def and_then_def emit_def returns_def)

lemma toasts_sendRequest_suppressed:
  "toasts (snd (sendRequest fetch g path m True ps b)) = []"
proof (cases "baseUrl g = []")
  case True
  then show ?thesis
    by (simp add: sendRequest_def and_then_def emit_def returns_def)
next
  case False
  have "toasts (snd (and_then (build_headers g) (\<lambda>hs.
        and_then (lift (attach_body b hs)) (\<lambda>(hs', rb).
        and_then (lift (parse_params ps)) (\<lambda>parsedParams.
          let options = \<lparr>options_method = m, options_headers = hs', options_body = rb\<rparr>
          in try_catch
               (try_block fetch g True (baseUrl g @ path @ parsedParams) options)
               (catch_block g True)))))) = []"
    by (intro toasts_and_then toasts_build_headers toasts_lift)
       (simp add: Let_def split_beta toasts_and_then toasts_lift toasts_try_catch toasts_try_block
                  toasts_catch_block)
  with False show ?thesis
    by (simp add: sendRequest_def)
qed

text \<open>
  C7. With the suppress flag set to true the notification callback is never invoked:
  not by the low-level handler, whatever the transport does and whatever the base URL
  is, and not by \<^verbatim>\<open>getRequest\<close> called with \<^verbatim>\<open>suppressToast: true\<close>.
\<close>

theorem suppressed_no_notifications:
  "toasts (snd (sendRequest fetch g path m True ps b)) = []
   \<and> (suppressToast args = Some True \<longrightarrow> toasts (snd (getRequest fetch g args)) = [])"
proof (intro conjI impI)
  show "toasts (snd (sendRequest fetch g path m True ps b)) = []"
    by (rule toasts_sendRequest_suppressed)
next
  assume s: "suppressToast args = Some True"
  show "toasts (snd (getRequest fetch g args)) = []"
  proof (cases "map_of (requests g) (request args)")
    case None
    then show ?thesis by (simp add: getRequest_not_Own)
  next
    case (Some r)
    then show ?thesis using s
      by (simp add: getRequest_Own or_default_def toasts_sendRequest_suppressed
               split: http_method.splits)
  qed
qed

text \<open>
  A login answered with status 200 and a message: the call notifies, the same call
  with \<^verbatim>\<open>suppressToast: true\<close> does not.
\<close>

theorem suppressed_no_notifications_witness:
  "suppressToast ((request_only ''login'')\<lparr>suppressToast := Some True\<rparr>) = Some True
   \<and> toasts (snd (getRequest
        (responds (JObj [(''status'', JNum 200), (''message'', JStr ''Welcome'')]))
        (setToastHandler silent_handler (appOperation None None))
        ((request_only ''login'')\<lparr>suppressToast := Some True\<rparr>))) = []
   \<and> toasts (snd (getRequest
        (responds (JObj [(''status'', JNum 200), (''message'', JStr ''Welcome'')]))
        (setToastHandler silent_handler (appOperation None None))
        (request_only ''login''))) = [(ToastSuccess, JStr ''Welcome'')]"
proof -
  have h: "suppressToast ((request_only ''login'')\<lparr>suppressToast := Some True\<rparr>) = Some True"
    by simp
  have run: "toasts (snd (getRequest
        (responds (JObj [(''status'', JNum 200), (''message'', JStr ''Welcome'')]))
        (setToastHandler silent_handler (appOperation None None))
        (request_only ''login''))) = [(ToastSuccess, JStr ''Welcome'')]"
    by code_simp
  from suppressed_no_notifications
         [of "responds (JObj [(''status'', JNum 200), (''message'', JStr ''Welcome'')])"
             "setToastHandler silent_handler (appOperation None None)" "[]" POST None None
             "(request_only ''login'')\<lparr>suppressToast := Some True\<rparr>"]
       h run
  show ?thesis by blast
qed

text \<open>
  C9. For an operation whose registry method is GET the notification callback is never
  invoked, whatever the outcome: the low-level call is made with notifications
  suppressed, and the caller's \<^verbatim>\<open>suppressToast\<close> argument changes nothing.
\<close>

theorem get_never_notifies:
  assumes "map_of (requests g) (request args) = Some r" and "method' r = GET"
  shows "toasts (snd (getRequest fetch g args)) = []
       \<and> getRequest fetch g args =
           sendRequest fetch g (basePath_of r args) GET True (params args) None
       \<and> getRequest fetch g (args\<lparr>suppressToast := s\<rparr>) = getRequest fetch g args"
proof -
  have eq: "getRequest fetch g args =
      sendRequest fetch g (basePath_of r args) GET True (params args) None"
    using assms by (simp add: getRequest_Own)
  have quiet: "toasts (snd (getRequest fetch g args)) = []"
    by (simp only: eq toasts_sendRequest_suppressed)
  have "map_of (requests g) (request (args\<lparr>suppressToast := s\<rparr>)) = Some r"
    using assms by simp
  then have "getRequest fetch g (args\<lparr>suppressToast := s\<rparr>) =
      sendRequest fetch g (basePath_of r (args\<lparr>suppressToast := s\<rparr>)) GET True
        (params (args\<lparr>suppressToast := s\<rparr>)) None"
    using assms(2) by (simp add: getRequest_Own)
  then have "getRequest fetch g (args\<lparr>suppressToast := s\<rparr>) = getRequest fetch g args"
    by (simp add: eq basePath_of_def)
  with eq quiet show ?thesis by blast
qed

theorem get_never_notifies_witness:
  "map_of (requests (setToastHandler silent_handler (appOperation None None)))
       (request (request_only ''get_profile''))
     = Some \<lparr>method' = GET, url = ''profile/''\<rparr>
   \<and> method' \<lparr>method' = GET, url = ''profile/''\<rparr> = GET
   \<and> toasts (snd (getRequest
        (responds (JObj [(''status'', JNum 200), (''message'', JStr ''Loaded'')]))
        (setToastHandler silent_handler (appOperation None None))
        (request_only ''get_profile''))) = []
   \<and> getRequest
        (responds (JObj [(''status'', JNum 200), (''message'', JStr ''Loaded'')]))
        (setToastHandler silent_handler (appOperation None None))
        ((request_only ''get_profile'')\<lparr>suppressToast := Some False\<rparr>)
      = getRequest
        (responds (JObj [(''status'', JNum 200), (''message'', JStr ''Loaded'')]))
        (setToastHandler silent_handler (appOperation None None))
        (request_only ''get_profile'')"
proof -
  have reg: "map_of (requests (setToastHandler silent_handler (appOperation None None)))
       (request (request_only ''get_profile''))
     = Some \<lparr>method' = GET, url = ''profile/''\<rparr>"
    by (simp add: setToastHandler_def appOperation_def new_AppOperation_def api_requests_def
                  request_only_def)
  have m: "method' \<lparr>method' = GET, url = ''profile/''\<rparr> = GET"
    by simp
  from get_never_notifies [OF reg m,
         of "responds (JObj [(''status'', JNum 200), (''message'', JStr ''Loaded'')])"
            "Some False"]
       reg m
  show ?thesis by blast
qed

section \<open>Calls of the transport\<close>

lemma fetches_build_headers: "fetches (snd (build_headers g)) = []"
  by (simp add: build_headers_def fetches_and_then lift_def returns_def emit_def
           split: sum.splits option.splits)

lemma fetches_notify_success: "fetches (snd (notify_success g s data)) = []"
  by (simp add: notify_success_def fetches_and_then lift_def returns_def emit_def fetches_toast
           split: sum.splits)

lemma fetches_notify_error: "fetches (snd (notify_error g s data)) = []"
  by (simp add: notify_error_def fetches_and_then lift_def returns_def emit_def fetches_toast
           split: sum.splits)

lemma fetches_catch_block: "fetches (snd (catch_block g s e)) = []"
  by (simp add: catch_block_def Let_def fetches_and_then returns_def emit_def fetches_toast)

lemma fetches_try_block: "fetches (snd (try_block fetch g s u opts)) = [(u, opts)]"
  by (simp add: try_block_def fetches_and_then lift_def returns_def emit_def
                fetches_notify_success fetches_notify_error split: sum.splits)

lemma fetches_try_catch:
  "fetches (snd (try_catch (try_block fetch g s u opts) (catch_block g s))) = [(u, opts)]"
  by (simp add: snd_try_catch fetches_append fetches_try_block fetches_catch_block
           split: sum.splits)

text \<open>
  The transport is called at most once: when the base URL is set and neither the header
  set nor the body step has thrown, and then on the address and options built so far.
\<close>

lemma fetches_sendRequest:
  "fetches (snd (sendRequest fetch g path m s ps b)) =
     (if baseUrl g = [] then []
      else case fst (build_headers g) of
             Inl e \<Rightarrow> []
           | Inr hs \<Rightarrow>
               (case attach_body b hs of
                  Inl e \<Rightarrow> []
                | Inr (hs', rb) \<Rightarrow>
                    (case parse_params ps of
                       Inl e \<Rightarrow> []
                     | Inr parsedParams \<Rightarrow>
                         [(baseUrl g @ path @ parsedParams,
                           \<lparr>options_method = m, options_headers = hs', options_body = rb\<rparr>)])))"
  by (simp add: sendRequest_def fetches_and_then fetches_build_headers fetches_try_catch
                lift_def returns_def emit_def fetches_toast Let_def
           split: sum.splits prod.splits)

lemma sent_bodies_no_body:
  "rb \<in> set (sent_bodies (snd (sendRequest fetch g path m s ps None))) \<Longrightarrow> rb = None"
  by (auto simp: sent_bodies_def fetches_sendRequest attach_body_def split: sum.splits if_splits)

text \<open>
  C10. For an operation whose registry method is GET or DELETE a body supplied by the
  caller is discarded: the outcome of \<^verbatim>\<open>getRequest\<close> (what it returns and every call it
  makes) is the same for every \<^verbatim>\<open>body\<close> argument, so the body is neither serialized nor
  looked at, and every request handed to the transport has no body.
\<close>

theorem get_delete_discard_body:
  assumes "map_of (requests g) (request args) = Some r"
    and "method' r = GET \<or> method' r = DELETE"
  shows "getRequest fetch g (args\<lparr>body := b\<rparr>) = getRequest fetch g args
       \<and> (\<forall>rb \<in> set (sent_bodies (snd (getRequest fetch g args))). rb = None)"
proof -
  have reg': "map_of (requests g) (request (args\<lparr>body := b\<rparr>)) = Some r"
    using assms(1) by simp
  have "getRequest fetch g (args\<lparr>body := b\<rparr>) = getRequest fetch g args"
    using assms(2)
    by (auto simp: getRequest_Own [OF assms(1)] getRequest_Own [OF reg'] basePath_of_def)
  moreover have "\<forall>rb \<in> set (sent_bodies (snd (getRequest fetch g args))). rb = None"
    using assms(2) by (auto simp: getRequest_Own [OF assms(1)] dest: sent_bodies_no_body)
  ultimately show ?thesis by blast
qed

text \<open>
  A DELETE operation called with a body: the transport is called once, without a body.
\<close>

theorem get_delete_discard_body_witness:
  "map_of (requests (new_AppOperation ''https://example.com/api/v1/''
                       [(''remove'', \<lparr>method' = DELETE, url = ''items/''\<rparr>)] None))
       (request (request_only ''remove''))
     = Some \<lparr>method' = DELETE, url = ''items/''\<rparr>
   \<and> method' \<lparr>method' = DELETE, url = ''items/''\<rparr> = DELETE
   \<and> getRequest (responds (JObj [(''status'', JNum 200)]))
        (new_AppOperation ''https://example.com/api/v1/''
           [(''remove'', \<lparr>method' = DELETE, url = ''items/''\<rparr>)] None)
        ((request_only ''remove'')\<lparr>body := Some (PlainObject (JObj [(''force'', JBool True)]))\<rparr>)
      = getRequest (responds (JObj [(''status'', JNum 200)]))
        (new_AppOperation ''https://example.com/api/v1/''
           [(''remove'', \<lparr>method' = DELETE, url = ''items/''\<rparr>)] None)
        (request_only ''remove'')
   \<and> sent_bodies (snd (getRequest (responds (JObj [(''status'', JNum 200)]))
        (new_AppOperation ''https://example.com/api/v1/''
           [(''remove'', \<lparr>method' = DELETE, url = ''items/''\<rparr>)] None)
        ((request_only ''remove'')\<lparr>body := Some (PlainObject (JObj [(''force'', JBool True)]))\<rparr>)))
      = [None]"
proof -
  have reg: "map_of (requests (new_AppOperation ''https://example.com/api/v1/''
                       [(''remove'', \<lparr>method' = DELETE, url = ''items/''\<rparr>)] None))
       (request (request_only ''remove''))
     = Some \<lparr>method' = DELETE, url = ''items/''\<rparr>"
    by (simp add: new_AppOperation_def request_only_def)
  have m: "method' \<lparr>method' = DELETE, url = ''items/''\<rparr> = GET
         \<or> method' \<lparr>method' = DELETE, url = ''items/''\<rparr> = DELETE"
    by simp
  have run: "sent_bodies (snd (getRequest (responds (JObj [(''status'', JNum 200)]))
        (new_AppOperation ''https://example.com/api/v1/''
           [(''remove'', \<lparr>method' = DELETE, url = ''items/''\<rparr>)] None)
        ((request_only ''remove'')\<lparr>body := Some (PlainObject (JObj [(''force'', JBool True)]))\<rparr>)))
      = [None]"
    by code_simp
  from get_delete_discard_body [OF reg m, of "responds (JObj [(''status'', JNum 200)])"
         "Some (PlainObject (JObj [(''force'', JBool True)]))"]
       reg run
  show ?thesis by simp
qed

section \<open>A missing base URL\<close>

lemma sendRequest_no_baseUrl:
  assumes "baseUrl g = []"
  shows "sendRequest fetch g path m s ps b =
     (Inr (JObj [(''status'', JNum 500), (''message'', JStr config_errorMsg)]),
      if s then [] else toast g ToastError (JStr ''API configuration error''))"
  using assms by (simp add: sendRequest_def and_then_def emit_def returns_def)

text \<open>
  C6. With an empty base URL the low-level handler short-circuits: it returns the
  envelope \<^verbatim>\<open>{status: 500, message: <configuration error text>}\<close>, never calls the
  transport, and notifies once, with an error, unless notifications are suppressed (or
  no handler is set). Through \<^verbatim>\<open>getRequest\<close> on a registered operation the same holds,
  where GET counts as suppressed.
\<close>

theorem missing_baseUrl_short_circuit:
  assumes "baseUrl g = []"
  shows "sendRequest fetch g path m s ps b =
           (Inr (JObj [(''status'', JNum 500), (''message'', JStr config_errorMsg)]),
            if s \<or> showToast g = None then []
            else [ShowToast ToastError (JStr ''API configuration error'')])
       \<and> fetches (snd (sendRequest fetch g path m s ps b)) = []
       \<and> (map_of (requests g) (request args) = Some r \<longrightarrow>
            fst (getRequest fetch g args) =
              Inr (JObj [(''status'', JNum 500), (''message'', JStr config_errorMsg)])
          \<and> fetches (snd (getRequest fetch g args)) = []
          \<and> toasts (snd (getRequest fetch g args)) =
              (if method' r = GET \<or> or_default (suppressToast args) False \<or> showToast g = None
               then [] else [(ToastError, JStr ''API configuration error'')]))"
proof (intro conjI impI)
  show "sendRequest fetch g path m s ps b =
           (Inr (JObj [(''status'', JNum 500), (''message'', JStr config_errorMsg)]),
            if s \<or> showToast g = None then []
            else [ShowToast ToastError (JStr ''API configuration error'')])"
    using assms by (auto simp: sendRequest_no_baseUrl toast_def)
  show "fetches (snd (sendRequest fetch g path m s ps b)) = []"
    using assms by (simp add: fetches_sendRequest)
next
  assume reg: "map_of (requests g) (request args) = Some r"
  show "fst (getRequest fetch g args) =
         Inr (JObj [(''status'', JNum 500), (''message'', JStr config_errorMsg)])"
    using assms
    by (simp add: getRequest_Own [OF reg] sendRequest_no_baseUrl split: http_method.splits)
  show "fetches (snd (getRequest fetch g args)) = []"
    using assms
    by (simp add: getRequest_Own [OF reg] fetches_sendRequest split: http_method.splits)
  show "toasts (snd (getRequest fetch g args)) =
              (if method' r = GET \<or> or_default (suppressToast args) False \<or> showToast g = None
               then [] else [(ToastError, JStr ''API configuration error'')])"
    using assms
    by (simp add: getRequest_Own [OF reg] sendRequest_no_baseUrl toasts_toast
             split: http_method.splits)
qed

text \<open>
  The instance of \<^verbatim>\<open>api.ts\<close> with \<^verbatim>\<open>EXPO_PUBLIC_API_URL\<close> set to the empty string, and a
  notification handler: a login returns the configuration envelope and notifies once.
\<close>

theorem missing_baseUrl_short_circuit_witness:
  "baseUrl (setToastHandler silent_handler (appOperation (Some []) None)) = []
   \<and> map_of (requests (setToastHandler silent_handler (appOperation (Some []) None)))
        (request (request_only ''login''))
      = Some \<lparr>method' = POST, url = ''auth/login''\<rparr>
   \<and> getRequest (responds JNull) (setToastHandler silent_handler (appOperation (Some []) None))
        (request_only ''login'')
      = (Inr (JObj [(''status'', JNum 500), (''message'', JStr config_errorMsg)]),
         [ShowToast ToastError (JStr ''API configuration error'')])
   \<and> fetches (snd (getRequest (responds JNull)
        (setToastHandler silent_handler (appOperation (Some []) None))
        (request_only ''login''))) = []"
proof -
  have base: "baseUrl (setToastHandler silent_handler (appOperation (Some []) None)) = []"
    by (simp add: setToastHandler_def appOperation_def new_AppOperation_def or_default_def)
  have reg: "map_of (requests (setToastHandler silent_handler (appOperation (Some []) None)))
        (request (request_only ''login''))
      = Some \<lparr>method' = POST, url = ''auth/login''\<rparr>"
    by (simp add: setToastHandler_def appOperation_def new_AppOperation_def api_requests_def
                  request_only_def)
  have handler: "showToast (setToastHandler silent_handler (appOperation (Some []) None)) \<noteq> None"
    by (simp add: setToastHandler_def)
  have dispatch: "getRequest (responds JNull)
        (setToastHandler silent_handler (appOperation (Some []) None)) (request_only ''login'')
      = sendRequest (responds JNull)
          (setToastHandler silent_handler (appOperation (Some []) None))
          (basePath_of \<lparr>method' = POST, url = ''auth/login''\<rparr> (request_only ''login''))
          POST False None None"
    using getRequest_Own [OF reg, of "responds JNull"]
    by (simp add: or_default_def request_only_def)
  from missing_baseUrl_short_circuit [OF base, of "responds JNull"
         "basePath_of \<lparr>method' = POST, url = ''auth/login''\<rparr> (request_only ''login'')"
         POST False None None "request_only ''login''" "\<lparr>method' = POST, url = ''auth/login''\<rparr>"]
       base reg handler dispatch
  show ?thesis by simp
qed

section \<open>Building the request\<close>

lemma append_entries_eq:
  "append_entries es hs =
     (if list_all entry_accepted es then Inr (hs @ map stored_entry es)
      else Inl (Thrown ''TypeError'' ''Invalid header name or value''))"
  by (induction es hs rule: append_entries.induct)
     (auto simp: headers_append_def entry_accepted_def stored_entry_def)

lemma content_type_accepted:
  "headers_append ''Content-Type'' ''application/json'' [] = Inr [(''content-type'', ''application/json'')]"
  by code_simp

lemma fst_build_headers:
  "fst (build_headers g) =
     (if list_all entry_accepted (staticHeaders g) \<and> list_all entry_accepted (dynamicHeaders_of g)
      then Inr ((''content-type'', ''application/json'') # map stored_entry (staticHeaders g)
                  @ map stored_entry (dynamicHeaders_of g))
      else Inl (Thrown ''TypeError'' ''Invalid header name or value''))"
  by (simp add: build_headers_def fst_and_then content_type_accepted append_entries_eq lift_def
        returns_def emit_def dynamicHeaders_of_def split: option.splits)

lemma valid_content_type: "valid_header_name ''Content-Type''"
  by code_simp

lemma multipart_value: "valid_header_value ''multipart/form-data''"
  by code_simp

text \<open>
  The body step throws exactly on an object that \<^verbatim>\<open>JSON.stringify\<close> rejects; otherwise it
  keeps the header set, or replaces its Content-Type for a form payload.
\<close>

lemma attach_body_headers:
  assumes "attach_body b hs = Inr (hs', rb)"
  shows "hs' = (case b of
                  Some (FormData fd) \<Rightarrow>
                    filter (\<lambda>(n, v). n \<noteq> ''content-type'') hs
                      @ [(''content-type'', ''multipart/form-data'')]
                | _ \<Rightarrow> hs)"
proof -
  have l: "lowercase ''Content-Type'' = ''content-type''" by code_simp
  have n: "normalize_value ''multipart/form-data'' = ''multipart/form-data''" by code_simp
  show ?thesis
    using assms
    by (auto simp: attach_body_def headers_delete_def headers_append_def valid_content_type
          multipart_value l n split: option.splits body_arg.splits sum.splits if_splits)
qed

lemma attach_body_returns:
  "(\<exists>r. attach_body b hs = Inr r) \<longleftrightarrow> body_serializable b"
proof -
  have l: "lowercase ''Content-Type'' = ''content-type''" by code_simp
  have n: "normalize_value ''multipart/form-data'' = ''multipart/form-data''" by code_simp
  show ?thesis
    by (auto simp: attach_body_def body_serializable_def headers_delete_def headers_append_def
          valid_content_type multipart_value l n split: option.splits body_arg.splits sum.splits)
qed

lemma append_params_returns:
  "(\<exists>q. append_params ps ks i acc = Inr q) \<longleftrightarrow> list_all (\<lambda>k. printable (param_value ps k)) ks"
  by (induction ks arbitrary: i acc) (auto simp: printable_def split: sum.splits)

lemma parse_params_returns:
  "(\<exists>q. parse_params ps = Inr q) \<longleftrightarrow> params_printable ps"
  by (simp add: parse_params_def params_printable_def append_params_returns split: option.splits)

lemma fst_catch_block:
  "fst (catch_block g s e) =
     Inr (error_envelope (userMessage_of (errorMessage_of e)) (errorMessage_of e))"
  by (simp add: catch_block_def Let_def fst_and_then emit_def returns_def error_envelope_def)

lemma try_block_fetch_throws:
  "fetch u opts = Inl e \<Longrightarrow> fst (try_block fetch g s u opts) = Inl e"
  by (simp add: try_block_def fst_and_then emit_def lift_def)

lemma try_block_json_throws:
  "fetch u opts = Inr resp \<Longrightarrow> json resp = Inl e \<Longrightarrow> fst (try_block fetch g s u opts) = Inl e"
  by (simp add: try_block_def fst_and_then emit_def lift_def)

lemma fst_sendRequest:
  "fst (sendRequest fetch g path m s ps b) =
     (if baseUrl g = [] then Inr (JObj [(''status'', JNum 500), (''message'', JStr config_errorMsg)])
      else case fst (build_headers g) of
             Inl e \<Rightarrow> Inl e
           | Inr hs \<Rightarrow>
               (case attach_body b hs of
                  Inl e \<Rightarrow> Inl e
                | Inr (hs', rb) \<Rightarrow>
                    (case parse_params ps of
                       Inl e \<Rightarrow> Inl e
                     | Inr parsedParams \<Rightarrow>
                         fst (try_catch
                               (try_block fetch g s (baseUrl g @ path @ parsedParams)
                                  \<lparr>options_method = m, options_headers = hs', options_body = rb\<rparr>)
                               (catch_block g s)))))"
  by (simp add: sendRequest_def fst_and_then lift_def returns_def emit_def Let_def
           split: sum.splits prod.splits)

text \<open>What is known when the transport has been called.\<close>

lemma sent_call:
  assumes "(u, opts) \<in> set (fetches (snd (sendRequest fetch g path m s ps b)))"
  obtains hs hs' rb q where
    "baseUrl g \<noteq> []" and "fst (build_headers g) = Inr hs"
    and "attach_body b hs = Inr (hs', rb)" and "parse_params ps = Inr q"
    and "u = baseUrl g @ path @ q"
    and "opts = \<lparr>options_method = m, options_headers = hs', options_body = rb\<rparr>"
proof -
  have base: "baseUrl g \<noteq> []"
    using assms by (auto simp: fetches_sendRequest)
  obtain hs where bh: "fst (build_headers g) = Inr hs"
    using assms base by (cases "fst (build_headers g)") (auto simp: fetches_sendRequest)
  obtain hs' rb where ab: "attach_body b hs = Inr (hs', rb)"
    using assms base bh by (cases "attach_body b hs") (auto simp: fetches_sendRequest)
  obtain q where pp: "parse_params ps = Inr q"
    using assms base bh ab by (cases "parse_params ps") (auto simp: fetches_sendRequest)
  have "u = baseUrl g @ path @ q"
    and "opts = \<lparr>options_method = m, options_headers = hs', options_body = rb\<rparr>"
    using assms base bh ab pp by (simp_all add: fetches_sendRequest)
  with base bh ab pp show ?thesis
    using that by blast
qed

lemma sendRequest_transport_failure:
  assumes "(u, opts) \<in> set (fetches (snd (sendRequest fetch g path m s ps b)))"
    and "fetch u opts = Inl e \<or> (\<exists>resp. fetch u opts = Inr resp \<and> json resp = Inl e)"
  shows "fst (sendRequest fetch g path m s ps b) =
           Inr (error_envelope (userMessage_of (errorMessage_of e)) (errorMessage_of e))"
proof -
  from assms(1) obtain hs hs' rb q where
    base: "baseUrl g \<noteq> []" and bh: "fst (build_headers g) = Inr hs"
    and ab: "attach_body b hs = Inr (hs', rb)" and pp: "parse_params ps = Inr q"
    and u: "u = baseUrl g @ path @ q"
    and opts: "opts = \<lparr>options_method = m, options_headers = hs', options_body = rb\<rparr>"
    by (rule sent_call)
  from assms(2) have "fst (try_block fetch g s u opts) = Inl e"
    by (auto simp: try_block_fetch_throws try_block_json_throws)
  then show ?thesis
    using base bh ab pp u opts by (simp add: fst_sendRequest fst_try_catch fst_catch_block)
qed

text \<open>
  The low-level handler returns a value exactly when the base URL is empty or none of the
  steps before the \<^verbatim>\<open>try\<close> throws: the header set, the body, the query string.
\<close>

lemma sendRequest_returns:
  "(\<exists>v. fst (sendRequest fetch g path m s ps b) = Inr v) \<longleftrightarrow>
     (baseUrl g = []
      \<or> (list_all entry_accepted (staticHeaders g)
         \<and> list_all entry_accepted (dynamicHeaders_of g)
         \<and> body_serializable b \<and> params_printable ps))"
proof (cases "baseUrl g = []")
  case True
  then show ?thesis by (simp add: fst_sendRequest)
next
  case False
  show ?thesis
  proof (cases "fst (build_headers g)")
    case (Inl e)
    then show ?thesis
      using False by (auto simp: fst_sendRequest fst_build_headers split: if_splits)
  next
    case hs: (Inr hs)
    then have acc: "list_all entry_accepted (staticHeaders g)
         \<and> list_all entry_accepted (dynamicHeaders_of g)"
      by (auto simp: fst_build_headers split: if_splits)
    show ?thesis
    proof (cases "attach_body b hs")
      case (Inl e)
      then have "\<not> body_serializable b"
        using attach_body_returns [of b hs] by simp
      then show ?thesis
        using False hs Inl by (simp add: fst_sendRequest)
    next
      case ab: (Inr r)
      then have ser: "body_serializable b"
        using attach_body_returns [of b hs] by blast
      obtain hs' rb where r: "r = (hs', rb)" by (cases r)
      show ?thesis
      proof (cases "parse_params ps")
        case (Inl e)
        then have "\<not> params_printable ps"
          using parse_params_returns [of ps] by simp
        then show ?thesis
          using False hs ab r Inl by (simp add: fst_sendRequest)
      next
        case (Inr q)
        then have "params_printable ps"
          using parse_params_returns [of ps] by blast
        then show ?thesis
          using False hs ab r Inr acc ser
          by (auto simp: fst_sendRequest fst_try_catch fst_catch_block split: sum.splits)
      qed
    qed
  qed
qed

lemma getRequest_is_sendRequest:
  assumes "map_of (requests g) (request args) = Some r"
  shows "\<exists>path m s ps b. getRequest fetch g args = sendRequest fetch g path m s ps b"
  using assms by (cases "method' r") (simp_all add: getRequest_Own, blast+)

lemma no_body_serializable: "body_serializable None"
  by (simp add: body_serializable_def)

lemma no_params_printable: "params_printable None"
  by (simp add: params_printable_def)

section \<open>Exceptions\<close>

text \<open>
  C4, as the code has it. The \<^verbatim>\<open>try\<close> of the low-level handler begins after the header
  set, the body and the query string are built. \<^verbatim>\<open>getRequest\<close> on a registered operation
  returns a value exactly when the base URL is empty or none of these steps throws: the
  header set accepts every static and dynamic header, \<^verbatim>\<open>JSON.stringify\<close> accepts the body
  (for PATCH, POST and PUT, which forward it) and every kept query parameter converts to
  a string (for GET, which forwards them); otherwise the error of that step leaves
  \<^verbatim>\<open>getRequest\<close>, as the error of an unregistered operation does. Whenever the transport
  was called and the call or the JSON decoding of its response threw, the exception is
  caught and the value returned is the envelope \<^verbatim>\<open>{status: 500, message, error}\<close>.
\<close>

theorem getRequest_returns_value:
  assumes "map_of (requests g) (request args) = Some r"
  shows "((\<exists>v. fst (getRequest fetch g args) = Inr v) \<longleftrightarrow>
            (baseUrl g = []
             \<or> (list_all entry_accepted (staticHeaders g)
                \<and> list_all entry_accepted (dynamicHeaders_of g)
                \<and> (method' r = PATCH \<or> method' r = POST \<or> method' r = PUT
                     \<longrightarrow> body_serializable (body args))
                \<and> (method' r = GET \<longrightarrow> params_printable (params args)))))
       \<and> ((u, opts) \<in> set (fetches (snd (getRequest fetch g args)))
            \<and> (fetch u opts = Inl e \<or> (\<exists>resp. fetch u opts = Inr resp \<and> json resp = Inl e))
          \<longrightarrow> fst (getRequest fetch g args) =
                Inr (JObj [(''status'', JNum 500),
                           (''message'', JStr (userMessage_of (errorMessage_of e))),
                           (''error'', JStr (errorMessage_of e))]))"
proof (intro conjI)
  show "(\<exists>v. fst (getRequest fetch g args) = Inr v) \<longleftrightarrow>
            (baseUrl g = []
             \<or> (list_all entry_accepted (staticHeaders g)
                \<and> list_all entry_accepted (dynamicHeaders_of g)
                \<and> (method' r = PATCH \<or> method' r = POST \<or> method' r = PUT
                     \<longrightarrow> body_serializable (body args))
                \<and> (method' r = GET \<longrightarrow> params_printable (params args))))"
    by (cases "method' r")
       (simp_all add: getRequest_Own [OF assms] sendRequest_returns no_body_serializable
                      no_params_printable)
next
  obtain path m s ps b where eq: "getRequest fetch g args = sendRequest fetch g path m s ps b"
    using getRequest_is_sendRequest [OF assms] by blast
  have "(u, opts) \<in> set (fetches (snd (sendRequest fetch g path m s ps b)))
            \<and> (fetch u opts = Inl e \<or> (\<exists>resp. fetch u opts = Inr resp \<and> json resp = Inl e))
          \<longrightarrow> fst (sendRequest fetch g path m s ps b) =
                Inr (JObj [(''status'', JNum 500),
                           (''message'', JStr (userMessage_of (errorMessage_of e))),
                           (''error'', JStr (errorMessage_of e))])"
    using sendRequest_transport_failure [of u opts fetch g path m s ps b e]
    by (simp add: error_envelope_def)
  then show "(u, opts) \<in> set (fetches (snd (getRequest fetch g args)))
            \<and> (fetch u opts = Inl e \<or> (\<exists>resp. fetch u opts = Inr resp \<and> json resp = Inl e))
          \<longrightarrow> fst (getRequest fetch g args) =
                Inr (JObj [(''status'', JNum 500),
                           (''message'', JStr (userMessage_of (errorMessage_of e))),
                           (''error'', JStr (errorMessage_of e))])"
    by (simp only: eq)
qed

text \<open>
  Against C4 as the specification states it (no exception ever leaves \<^verbatim>\<open>getRequest\<close>):
  on an operation identifier that the registry does not hold the call throws.
\<close>

theorem getRequest_throws_counterexample:
  "fst (getRequest (responds (JObj [(''status'', JNum 200)])) (appOperation None None)
         (request_only ''does-not-exist''))
     = Inl (Thrown ''TypeError''
              (''Cannot read properties of undefined (reading '' @ [CHR 0x27] @ ''url'' @ [CHR 0x27] @ '')''))"
  by code_simp

text \<open>
  The instance of \<^verbatim>\<open>api.ts\<close> with a system key, a login with a body whose transport call
  fails with "Failed to fetch": the call returns the envelope of a network error.
\<close>

theorem getRequest_returns_value_witness:
  "map_of (requests (appOperation None (Some ''k3y'')))
       (request ((request_only ''login'')
          \<lparr>body := Some (PlainObject (JObj [(''email'', JStr ''a@b.c'')]))\<rparr>))
     = Some \<lparr>method' = POST, url = ''auth/login''\<rparr>
   \<and> list_all entry_accepted (staticHeaders (appOperation None (Some ''k3y'')))
   \<and> list_all entry_accepted (dynamicHeaders_of (appOperation None (Some ''k3y'')))
   \<and> body_serializable (Some (PlainObject (JObj [(''email'', JStr ''a@b.c'')])))
   \<and> (''https://example.com/api/v1/auth/login'',
        \<lparr>options_method = POST,
           options_headers = [(''content-type'', ''application/json''), (''system-key'', ''k3y'')],
           options_body = Some (JSON_stringify (JObj [(''email'', JStr ''a@b.c'')]))\<rparr>)
       \<in> set (fetches (snd (getRequest (fetch_throws (Thrown ''TypeError'' ''Failed to fetch''))
                  (appOperation None (Some ''k3y''))
                  ((request_only ''login'')
                     \<lparr>body := Some (PlainObject (JObj [(''email'', JStr ''a@b.c'')]))\<rparr>))))
   \<and> fst (getRequest (fetch_throws (Thrown ''TypeError'' ''Failed to fetch''))
             (appOperation None (Some ''k3y''))
             ((request_only ''login'')
                \<lparr>body := Some (PlainObject (JObj [(''email'', JStr ''a@b.c'')]))\<rparr>))
      = Inr (JObj [(''status'', JNum 500),
                   (''message'', JStr ''Network error. Please check your connection.''),
                   (''error'', JStr ''Failed to fetch'')])"
proof -
  let ?g = "appOperation None (Some ''k3y'')"
  let ?b = "Some (PlainObject (JObj [(''email'', JStr ''a@b.c'')]))"
  let ?args = "(request_only ''login'')\<lparr>body := ?b\<rparr>"
  let ?e = "Thrown ''TypeError'' ''Failed to fetch''"
  let ?opts = "\<lparr>options_method = POST,
           options_headers = [(''content-type'', ''application/json''), (''system-key'', ''k3y'')],
           options_body = Some (JSON_stringify (JObj [(''email'', JStr ''a@b.c'')]))\<rparr>"
  have reg: "map_of (requests ?g) (request ?args) = Some \<lparr>method' = POST, url = ''auth/login''\<rparr>"
    by (simp add: appOperation_def new_AppOperation_def api_requests_def request_only_def)
  have st: "list_all entry_accepted (staticHeaders ?g)"
    by code_simp
  have dy: "list_all entry_accepted (dynamicHeaders_of ?g)"
    by code_simp
  have ser: "body_serializable ?b"
    by code_simp
  have sent: "(''https://example.com/api/v1/auth/login'', ?opts)
       \<in> set (fetches (snd (getRequest (fetch_throws ?e) ?g ?args)))"
    by code_simp
  have thrown: "fetch_throws ?e ''https://example.com/api/v1/auth/login'' ?opts = Inl ?e"
    by (simp add: fetch_throws_def)
  have msg: "userMessage_of ''Failed to fetch'' = ''Network error. Please check your connection.''"
    by code_simp
  have emsg: "errorMessage_of ?e = ''Failed to fetch''"
    by code_simp
  from getRequest_returns_value
         [of ?g ?args "\<lparr>method' = POST, url = ''auth/login''\<rparr>" "fetch_throws ?e"
             "''https://example.com/api/v1/auth/login''" ?opts ?e, OF reg]
       sent thrown
  have "fst (getRequest (fetch_throws ?e) ?g ?args) =
          Inr (JObj [(''status'', JNum 500),
                     (''message'', JStr (userMessage_of (errorMessage_of ?e))),
                     (''error'', JStr (errorMessage_of ?e))])"
    by blast
  then have "fst (getRequest (fetch_throws ?e) ?g ?args) =
          Inr (JObj [(''status'', JNum 500),
                     (''message'', JStr ''Network error. Please check your connection.''),
                     (''error'', JStr ''Failed to fetch'')])"
    by (simp only: emsg msg)
  with reg st dy ser sent show ?thesis by blast
qed

text \<open>
  A login with a cyclic body, and a profile request with a Symbol among its parameters:
  the error of \<^verbatim>\<open>JSON.stringify\<close>, and that of the template literal, leave \<^verbatim>\<open>getRequest\<close>.
\<close>

lemma getRequest_body_throws:
  "fst (getRequest (responds (JObj [(''status'', JNum 200)])) (appOperation None None)
         ((request_only ''login'')
            \<lparr>body := Some (OtherObject
                 (Inl (Thrown ''TypeError'' ''Converting circular structure to JSON'')))\<rparr>))
     = Inl (Thrown ''TypeError'' ''Converting circular structure to JSON'')"
  by code_simp

lemma getRequest_param_throws:
  "fst (getRequest (responds (JObj [(''status'', JNum 200)])) (appOperation None None)
         ((request_only ''get_profile'')
            \<lparr>params := Some [(''tag'',
                 Other (Inl (Thrown ''TypeError'' ''Cannot convert a Symbol value to a string'')))]\<rparr>))
     = Inl (Thrown ''TypeError'' ''Cannot convert a Symbol value to a string'')"
  by code_simp

text \<open>
  C5, as the code has it. When the transport call or the JSON decoding throws, the
  envelope returned carries in \<^verbatim>\<open>error\<close> the thrown message, or "Unknown error" when that
  message is empty, and in \<^verbatim>\<open>message\<close> its classification, tried in this order: the
  network text when it contains "Network request failed" or "Failed to fetch", the
  invalid-response text when it contains "JSON", the generic text otherwise.
\<close>

theorem error_classification:
  assumes "(u, opts) \<in> set (fetches (snd (sendRequest fetch g path m s ps b)))"
    and "fetch u opts = Inl e \<or> (\<exists>resp. fetch u opts = Inr resp \<and> json resp = Inl e)"
    and "msg = (if error_message e = [] then ''Unknown error'' else error_message e)"
  shows "fst (sendRequest fetch g path m s ps b) =
     Inr (JObj [(''status'', JNum 500),
                (''message'', JStr
                   (if includes_str msg ''Network request failed'' \<or> includes_str msg ''Failed to fetch''
                    then ''Network error. Please check your connection.''
                    else if includes_str msg ''JSON'' then ''Invalid response from server''
                    else ''Something went wrong'')),
                (''error'', JStr msg)])"
  using sendRequest_transport_failure [OF assms(1,2)] assms(3)
  by (simp add: error_envelope_def userMessage_of_def errorMessage_of_def)

text \<open>
  Against C5 as the specification states it (a message without "Failed to fetch" and
  without "JSON" yields the generic text): the message "Network request failed" yields
  the network text.
\<close>

theorem error_classification_counterexample:
  "\<not> includes_str ''Network request failed'' ''Failed to fetch''
   \<and> \<not> includes_str ''Network request failed'' ''JSON''
   \<and> fst (sendRequest (fetch_throws (Thrown ''TypeError'' ''Network request failed''))
            (appOperation None None) ''auth/login'' POST False None None)
       = Inr (JObj [(''status'', JNum 500),
                    (''message'', JStr ''Network error. Please check your connection.''),
                    (''error'', JStr ''Network request failed'')])
   \<and> fst (sendRequest (fetch_throws (Thrown ''TypeError'' ''Network request failed''))
            (appOperation None None) ''auth/login'' POST False None None)
       \<noteq> Inr (JObj [(''status'', JNum 500),
                    (''message'', JStr ''Something went wrong''),
                    (''error'', JStr ''Network request failed'')])"
  by code_simp

text \<open>A login whose response is not JSON: the envelope of an invalid response.\<close>

theorem error_classification_witness:
  "(''https://example.com/api/v1/auth/login'',
      \<lparr>options_method = POST,
         options_headers = [(''content-type'', ''application/json'')],
         options_body = None\<rparr>)
     \<in> set (fetches (snd (sendRequest
          (json_throws (Thrown ''SyntaxError'' ''Unexpected token < in JSON at position 0''))
          (appOperation None None) ''auth/login'' POST False None None)))
   \<and> fst (sendRequest
          (json_throws (Thrown ''SyntaxError'' ''Unexpected token < in JSON at position 0''))
          (appOperation None None) ''auth/login'' POST False None None)
      = Inr (JObj [(''status'', JNum 500),
                   (''message'', JStr ''Invalid response from server''),
                   (''error'', JStr ''Unexpected token < in JSON at position 0'')])"
proof -
  let ?e = "Thrown ''SyntaxError'' ''Unexpected token < in JSON at position 0''"
  let ?opts = "\<lparr>options_method = POST,
         options_headers = [(''content-type'', ''application/json'')],
         options_body = None\<rparr>"
  have sent: "(''https://example.com/api/v1/auth/login'', ?opts)
     \<in> set (fetches (snd (sendRequest (json_throws ?e)
          (appOperation None None) ''auth/login'' POST False None None)))"
    by code_simp
  have thrown: "json_throws ?e ''https://example.com/api/v1/auth/login'' ?opts = Inl ?e
       \<or> (\<exists>resp. json_throws ?e ''https://example.com/api/v1/auth/login'' ?opts = Inr resp
                  \<and> json resp = Inl ?e)"
    by (simp add: json_throws_def)
  have msg: "''Unexpected token < in JSON at position 0'' =
      (if error_message ?e = [] then ''Unknown error'' else error_message ?e)"
    by simp
  have c1: "includes_str ''Unexpected token < in JSON at position 0'' ''Network request failed'' = False"
    by code_simp
  have c2: "includes_str ''Unexpected token < in JSON at position 0'' ''Failed to fetch'' = False"
    by code_simp
  have c3: "includes_str ''Unexpected token < in JSON at position 0'' ''JSON'' = True"
    by code_simp
  from error_classification [of "''https://example.com/api/v1/auth/login''" ?opts "json_throws ?e"
         "appOperation None None" "''auth/login''" POST False None None ?e
         "''Unexpected token < in JSON at position 0''", OF sent thrown msg]
  have "fst (sendRequest (json_throws ?e) (appOperation None None) ''auth/login'' POST False None None)
      = Inr (JObj [(''status'', JNum 500),
                   (''message'', JStr ''Invalid response from server''),
                   (''error'', JStr ''Unexpected token < in JSON at position 0'')])"
    by (simp only: c1 c2 c3 simp_thms if_False if_True)
  with sent show ?thesis by blast
qed

section \<open>Static and dynamic headers\<close>

lemma sent_headers_sendRequest:
  assumes "hs \<in> set (sent_headers (snd (sendRequest fetch g path m s ps b)))"
  shows "hs = (case b of
                 Some (FormData fd) \<Rightarrow>
                   filter (\<lambda>(n, v). n \<noteq> ''content-type'')
                     ((''content-type'', ''application/json'') # map stored_entry (staticHeaders g)
                        @ map stored_entry (dynamicHeaders_of g))
                   @ [(''content-type'', ''multipart/form-data'')]
               | _ \<Rightarrow>
                   (''content-type'', ''application/json'') # map stored_entry (staticHeaders g)
                     @ map stored_entry (dynamicHeaders_of g))"
proof -
  from assms obtain u opts where
    sent: "(u, opts) \<in> set (fetches (snd (sendRequest fetch g path m s ps b)))"
    and hs: "hs = options_headers opts"
    by (auto simp: sent_headers_def)
  from sent obtain h0 hs' rb q where
    bh: "fst (build_headers g) = Inr h0" and ab: "attach_body b h0 = Inr (hs', rb)"
    and opts: "opts = \<lparr>options_method = m, options_headers = hs', options_body = rb\<rparr>"
    by (rule sent_call)
  have h0: "h0 = (''content-type'', ''application/json'') # map stored_entry (staticHeaders g)
                     @ map stored_entry (dynamicHeaders_of g)"
    using bh by (auto simp: fst_build_headers split: if_splits)
  show ?thesis
    using attach_body_headers [OF ab] hs opts h0
    by (simp split: option.splits body_arg.splits)
qed

lemma stored_entry_pair: "stored_entry (k, v) = (lowercase k, normalize_value v)"
  by (simp add: stored_entry_def)

text \<open>The values stored under a name are those of the entries with that name, in order.\<close>

lemma stored_under_name:
  "filter (\<lambda>(n, v). n = lowercase k) (map stored_entry es) =
     map stored_entry (filter (\<lambda>e. lowercase (fst e) = lowercase k) es)"
  by (induction es) (auto simp: stored_entry_def)

lemma stored_in_order:
  assumes "(ks, vs) \<in> set st" and "(kd, vd) \<in> set dy"
  shows "\<exists>h1 h2 h3. map stored_entry st @ map stored_entry dy =
            h1 @ [(lowercase ks, normalize_value vs)] @ h2 @ [(lowercase kd, normalize_value vd)] @ h3"
proof -
  from assms(1) obtain a a' where st: "st = a @ (ks, vs) # a'"
    by (auto dest: split_list)
  from assms(2) obtain d d' where dy: "dy = d @ (kd, vd) # d'"
    by (auto dest: split_list)
  have "map stored_entry st @ map stored_entry dy =
      map stored_entry a @ [(lowercase ks, normalize_value vs)]
        @ (map stored_entry a' @ map stored_entry d) @ [(lowercase kd, normalize_value vd)]
        @ map stored_entry d'"
    by (simp add: st dy stored_entry_pair)
  then show ?thesis by blast
qed

text \<open>
  C1, as the code has it. When a network call is made and a dynamic header has the key
  of a static header, names compared without regard to case (a key other than
  Content-Type), both values are in the header set handed to the transport, the static
  one before the dynamic one: \<^verbatim>\<open>append\<close> adds and never replaces. When that key occurs
  once among the static and once among the dynamic headers, the value read for it is the
  static value, a comma and a space, and the dynamic value.
\<close>

theorem dynamic_header_joins_static:
  assumes "hs \<in> set (sent_headers (snd (sendRequest fetch g path m s ps b)))"
    and "(ks, vs) \<in> set (staticHeaders g)"
    and "(kd, vd) \<in> set (dynamicHeaders_of g)"
    and "lowercase ks = lowercase k" and "lowercase kd = lowercase k"
    and "lowercase k \<noteq> ''content-type''"
  shows "(\<exists>h1 h2 h3. hs = h1 @ [(lowercase k, normalize_value vs)] @ h2
                          @ [(lowercase k, normalize_value vd)] @ h3)
       \<and> (filter (\<lambda>e. lowercase (fst e) = lowercase k) (staticHeaders g) = [(ks, vs)]
            \<and> filter (\<lambda>e. lowercase (fst e) = lowercase k) (dynamicHeaders_of g) = [(kd, vd)]
          \<longrightarrow> headers_get k hs = Some (normalize_value vs @ '', '' @ normalize_value vd))"
proof (intro conjI impI)
  let ?st = "map stored_entry (staticHeaders g)"
  let ?dy = "map stored_entry (dynamicHeaders_of g)"
  let ?keep = "filter (\<lambda>(n, v). n \<noteq> ''content-type'')"
  note hs = sent_headers_sendRequest [OF assms(1)]
  from stored_in_order [OF assms(2,3)] assms(4,5) obtain h1 h2 h3 where
    split: "?st @ ?dy = h1 @ [(lowercase k, normalize_value vs)] @ h2
                          @ [(lowercase k, normalize_value vd)] @ h3"
    by auto
  show "\<exists>h1 h2 h3. hs = h1 @ [(lowercase k, normalize_value vs)] @ h2
                          @ [(lowercase k, normalize_value vd)] @ h3"
  proof (cases "\<exists>fd. b = Some (FormData fd)")
    case True
    then obtain fd where b: "b = Some (FormData fd)" by blast
    have "hs = ?keep (?st @ ?dy) @ [(''content-type'', ''multipart/form-data'')]"
      using hs b by simp
    also have "?keep (?st @ ?dy) =
        ?keep h1 @ [(lowercase k, normalize_value vs)] @ ?keep h2
          @ [(lowercase k, normalize_value vd)] @ ?keep h3"
      using assms(6) by (simp add: split)
    finally have "hs = ?keep h1 @ [(lowercase k, normalize_value vs)] @ ?keep h2
          @ [(lowercase k, normalize_value vd)]
          @ (?keep h3 @ [(''content-type'', ''multipart/form-data'')])"
      by simp
    then show ?thesis by blast
  next
    case False
    then have "hs = (''content-type'', ''application/json'') # (?st @ ?dy)"
      using hs by (auto split: option.splits body_arg.splits)
    then have "hs = ((''content-type'', ''application/json'') # h1)
                      @ [(lowercase k, normalize_value vs)] @ h2
                      @ [(lowercase k, normalize_value vd)] @ h3"
      by (simp add: split)
    then show ?thesis by blast
  qed
next
  assume once: "filter (\<lambda>e. lowercase (fst e) = lowercase k) (staticHeaders g) = [(ks, vs)]
            \<and> filter (\<lambda>e. lowercase (fst e) = lowercase k) (dynamicHeaders_of g) = [(kd, vd)]"
  let ?sel = "filter (\<lambda>(n, v). n = lowercase k)"
  let ?st = "map stored_entry (staticHeaders g)"
  let ?dy = "map stored_entry (dynamicHeaders_of g)"
  have sel_keep: "?sel (filter (\<lambda>(n, v). n \<noteq> ''content-type'') xs) = ?sel xs" for xs :: headers
    using assms(6) by (induction xs) auto
  have "map snd (?sel hs) = map snd (?sel ?st) @ map snd (?sel ?dy)"
    using sent_headers_sendRequest [OF assms(1)] assms(6)
    by (auto simp: sel_keep simp del: filter_filter split: option.splits body_arg.splits)
  also have "\<dots> = [normalize_value vs, normalize_value vd]"
    using once by (simp add: stored_under_name stored_entry_pair)
  finally show "headers_get k hs = Some (normalize_value vs @ '', '' @ normalize_value vd)"
    by (simp add: headers_get_def)
qed

text \<open>
  Against C1 as the specification states it (the dynamic value overrides the static
  one): with the static header System-Key "stale" and the dynamic header System-Key
  "fresh" the transport receives the value "stale, fresh", not "fresh".
\<close>

theorem dynamic_header_override_counterexample:
  "map (headers_get ''System-Key'')
     (sent_headers (snd (getRequest (responds (JObj [(''status'', JNum 200)]))
        (setDynamicHeadersResolver (constant_resolver [(''System-Key'', ''fresh'')])
           (appOperation None (Some ''stale'')))
        (request_only ''get_profile''))))
     = [Some ''stale, fresh'']
   \<and> map (headers_get ''System-Key'')
     (sent_headers (snd (getRequest (responds (JObj [(''status'', JNum 200)]))
        (setDynamicHeadersResolver (constant_resolver [(''System-Key'', ''fresh'')])
           (appOperation None (Some ''stale'')))
        (request_only ''get_profile''))))
     \<noteq> [Some ''fresh'']"
  by code_simp

text \<open>
  The static header System-Key and the dynamic header system-key, read as SYSTEM-KEY.
\<close>

theorem dynamic_header_joins_static_witness:
  "[(''content-type'', ''application/json''), (''system-key'', ''stale''), (''system-key'', ''fresh'')]
     \<in> set (sent_headers (snd (sendRequest (responds (JObj [(''status'', JNum 200)]))
          (setDynamicHeadersResolver (constant_resolver [(''system-key'', ''fresh'')])
             (appOperation None (Some ''stale'')))
          ''profile/'' GET True None None)))
   \<and> (''System-Key'', ''stale'')
       \<in> set (staticHeaders (setDynamicHeadersResolver (constant_resolver [(''system-key'', ''fresh'')])
             (appOperation None (Some ''stale''))))
   \<and> (''system-key'', ''fresh'')
       \<in> set (dynamicHeaders_of (setDynamicHeadersResolver (constant_resolver [(''system-key'', ''fresh'')])
             (appOperation None (Some ''stale''))))
   \<and> lowercase ''System-Key'' = lowercase ''SYSTEM-KEY''
   \<and> lowercase ''system-key'' = lowercase ''SYSTEM-KEY''
   \<and> lowercase ''SYSTEM-KEY'' \<noteq> ''content-type''
   \<and> filter (\<lambda>e. lowercase (fst e) = lowercase ''SYSTEM-KEY'')
        (staticHeaders (setDynamicHeadersResolver (constant_resolver [(''system-key'', ''fresh'')])
             (appOperation None (Some ''stale''))))
       = [(''System-Key'', ''stale'')]
   \<and> filter (\<lambda>e. lowercase (fst e) = lowercase ''SYSTEM-KEY'')
        (dynamicHeaders_of (setDynamicHeadersResolver (constant_resolver [(''system-key'', ''fresh'')])
             (appOperation None (Some ''stale''))))
       = [(''system-key'', ''fresh'')]
   \<and> headers_get ''SYSTEM-KEY''
        [(''content-type'', ''application/json''), (''system-key'', ''stale''), (''system-key'', ''fresh'')]
       = Some ''stale, fresh''"
proof -
  let ?g = "setDynamicHeadersResolver (constant_resolver [(''system-key'', ''fresh'')])
             (appOperation None (Some ''stale''))"
  let ?hs = "[(''content-type'', ''application/json''), (''system-key'', ''stale''),
              (''system-key'', ''fresh'')]"
  have sent: "?hs \<in> set (sent_headers (snd (sendRequest (responds (JObj [(''status'', JNum 200)]))
          ?g ''profile/'' GET True None None)))"
    by code_simp
  have st: "(''System-Key'', ''stale'') \<in> set (staticHeaders ?g)"
    by code_simp
  have dy: "(''system-key'', ''fresh'') \<in> set (dynamicHeaders_of ?g)"
    by code_simp
  have ls: "lowercase ''System-Key'' = lowercase ''SYSTEM-KEY''"
    by code_simp
  have ld: "lowercase ''system-key'' = lowercase ''SYSTEM-KEY''"
    by code_simp
  have ne: "lowercase ''SYSTEM-KEY'' \<noteq> ''content-type''"
    by code_simp
  have once_st: "filter (\<lambda>e. lowercase (fst e) = lowercase ''SYSTEM-KEY'') (staticHeaders ?g)
                   = [(''System-Key'', ''stale'')]"
    by code_simp
  have once_dy: "filter (\<lambda>e. lowercase (fst e) = lowercase ''SYSTEM-KEY'') (dynamicHeaders_of ?g)
                   = [(''system-key'', ''fresh'')]"
    by code_simp
  have nv: "normalize_value ''stale'' @ '', '' @ normalize_value ''fresh'' = ''stale, fresh''"
    by code_simp
  from dynamic_header_joins_static
         [of ?hs "responds (JObj [(''status'', JNum 200)])" ?g "''profile/''" GET True None None
             "''System-Key''" "''stale''" "''system-key''" "''fresh''" "''SYSTEM-KEY''",
          OF sent st dy ls ld ne]
       once_st once_dy
  have "headers_get ''SYSTEM-KEY'' ?hs
          = Some (normalize_value ''stale'' @ '', '' @ normalize_value ''fresh'')"
    by blast
  then have "headers_get ''SYSTEM-KEY'' ?hs = Some ''stale, fresh''"
    by (simp only: nv)
  with sent st dy ls ld ne once_st once_dy show ?thesis by blast
qed

section \<open>The query string\<close>

lemma join_Cons: "join sep (x # xs) = x @ (if xs = [] then [] else sep @ join sep xs)"
  by (cases xs) simp_all

lemma printable_String_of: "printable v \<Longrightarrow> String_of v = Inr (printed v)"
  by (simp add: printable_def printed_def split: sum.splits)

lemma append_params_eq:
  assumes "list_all (\<lambda>k. printable (param_value ps k)) ks"
  shows "append_params ps ks i acc =
     Inr (acc @ (if ks = [] then []
                 else (if i = 0 then ''?'' else ''&'')
                      @ join ''&'' (map (\<lambda>k. k @ ''='' @ printed (param_value ps k)) ks)))"
  using assms
proof (induction ks arbitrary: i acc)
  case Nil
  then show ?case by simp
next
  case (Cons k ks)
  then show ?case
    by (simp add: printable_String_of join_Cons)
qed

lemma param_value_distinct:
  "distinct (map fst ps) \<Longrightarrow> (k, v) \<in> set ps \<Longrightarrow> param_value ps k = v"
  by (simp add: param_value_def)

lemma kept_keys_distinct:
  assumes "distinct (map fst ps)"
  shows "kept_keys ps = map fst (filter (\<lambda>(k, v). v \<noteq> Plain JUndefined \<and> v \<noteq> Plain JNull) ps)"
proof -
  have "filter ((\<lambda>key. param_value ps key \<noteq> Plain JUndefined \<and> param_value ps key \<noteq> Plain JNull)
                  \<circ> fst) ps
          = filter (\<lambda>(k, v). v \<noteq> Plain JUndefined \<and> v \<noteq> Plain JNull) ps"
    using assms by (intro filter_cong) (auto simp: param_value_distinct)
  then show ?thesis
    by (simp add: kept_keys_def filter_map)
qed

lemma parse_params_spec:
  assumes "distinct (map fst ps)" and "params_printable (Some ps)"
  shows "parse_params (Some ps) = Inr (spec_query_string ps)"
proof -
  let ?kept = "filter (\<lambda>(k, v). v \<noteq> Plain JUndefined \<and> v \<noteq> Plain JNull) ps"
  have texts: "map (\<lambda>k. k @ ''='' @ printed (param_value ps k)) (map fst ?kept)
          = map (\<lambda>(k, v). k @ ''='' @ printed v) ?kept"
    using assms(1) by (auto simp: param_value_distinct)
  have "parse_params (Some ps) =
      Inr (if kept_keys ps = [] then []
           else ''?'' @ join ''&'' (map (\<lambda>k. k @ ''='' @ printed (param_value ps k)) (kept_keys ps)))"
    using assms(2) by (simp add: parse_params_def params_printable_def append_params_eq)
  then show ?thesis
    using texts
    by (simp add: kept_keys_distinct [OF assms(1)] spec_query_string_def Let_def del: map_map)
qed

lemma plain_printable:
  assumes "list_all (\<lambda>kv. is_plain (snd kv)) ps"
  shows "params_printable (Some ps)"
proof -
  have "printable (param_value ps k)" for k
  proof (cases "map_of ps k")
    case None
    then show ?thesis by (simp add: param_value_def printable_def)
  next
    case (Some v)
    then have "(k, v) \<in> set ps" by (rule map_of_SomeD)
    with assms have "is_plain v" by (auto simp: list_all_iff)
    then show ?thesis
      using Some by (cases v) (simp_all add: param_value_def printable_def is_plain_def)
  qed
  then show ?thesis
    by (simp add: params_printable_def list_all_iff)
qed

lemma sent_urls_sendRequest:
  assumes "u \<in> set (sent_urls (snd (sendRequest fetch g path m s ps b)))"
  shows "\<exists>q. parse_params ps = Inr q \<and> u = baseUrl g @ path @ q"
proof -
  from assms obtain opts where
    "(u, opts) \<in> set (fetches (snd (sendRequest fetch g path m s ps b)))"
    by (auto simp: sent_urls_def)
  then show ?thesis
    by (rule sent_call) blast
qed

text \<open>
  C2, as the code has it. Only the GET wrapper forwards \<^verbatim>\<open>params\<close>. For a GET operation
  whose call reaches the transport, the address is the base URL, the path and the query
  string; for the other four methods it is the base URL and the path, whatever \<^verbatim>\<open>params\<close>
  holds. The query string of an object (its keys are distinct) whose kept values convert
  to strings, as all plain data does, is the one of the specification: entries with
  \<^verbatim>\<open>undefined\<close> or \<^verbatim>\<open>null\<close> dropped, order kept, nothing escaped, empty when no entry is
  left; \<^verbatim>\<open>{a: 1, b: undefined, c: "y"}\<close> gives \<^verbatim>\<open>?a=1&c=y\<close>.
\<close>

theorem get_query_string_sent:
  assumes "map_of (requests g) (request args) = Some r"
    and "u \<in> set (sent_urls (snd (getRequest fetch g args)))"
  shows "(method' r = GET \<longrightarrow>
            (\<exists>q. parse_params (params args) = Inr q \<and> u = baseUrl g @ basePath_of r args @ q))
       \<and> (method' r \<noteq> GET \<longrightarrow> u = baseUrl g @ basePath_of r args)
       \<and> parse_params None = Inr []
       \<and> (distinct (map fst ps) \<and> params_printable (Some ps)
            \<longrightarrow> parse_params (Some ps) = Inr (spec_query_string ps))
       \<and> (distinct (map fst ps) \<and> list_all (\<lambda>kv. is_plain (snd kv)) ps
            \<longrightarrow> parse_params (Some ps) = Inr (spec_query_string ps))
       \<and> parse_params (Some [(''a'', Plain (JNum 1)), (''b'', Plain JUndefined),
                               (''c'', Plain (JStr ''y''))]) = Inr ''?a=1&c=y''"
proof (intro conjI impI)
  assume "method' r = GET"
  then show "\<exists>q. parse_params (params args) = Inr q \<and> u = baseUrl g @ basePath_of r args @ q"
    using assms(2) by (simp add: getRequest_Own [OF assms(1)] sent_urls_sendRequest)
next
  assume "method' r \<noteq> GET"
  then have "\<exists>q. parse_params None = Inr q \<and> u = baseUrl g @ basePath_of r args @ q"
    using assms(2)
    by (cases "method' r") (auto simp: getRequest_Own [OF assms(1)] dest: sent_urls_sendRequest)
  then show "u = baseUrl g @ basePath_of r args"
    by (simp add: parse_params_def)
next
  show "parse_params None = Inr []"
    by (simp add: parse_params_def)
next
  assume "distinct (map fst ps) \<and> params_printable (Some ps)"
  then show "parse_params (Some ps) = Inr (spec_query_string ps)"
    by (simp add: parse_params_spec)
next
  assume "distinct (map fst ps) \<and> list_all (\<lambda>kv. is_plain (snd kv)) ps"
  then show "parse_params (Some ps) = Inr (spec_query_string ps)"
    by (simp add: parse_params_spec plain_printable)
next
  show "parse_params (Some [(''a'', Plain (JNum 1)), (''b'', Plain JUndefined),
                            (''c'', Plain (JStr ''y''))]) = Inr ''?a=1&c=y''"
    by code_simp
qed

text \<open>
  Against C2 as the specification states it (every call that supplies query parameters
  has them in the address): \<^verbatim>\<open>params: {a: 1}\<close> on the login, a POST, is sent to the
  address without \<^verbatim>\<open>?a=1\<close>.
\<close>

theorem post_params_counterexample:
  "sent_urls (snd (getRequest (responds (JObj [(''status'', JNum 200)])) (appOperation None None)
       ((request_only ''login'')\<lparr>params := Some [(''a'', Plain (JNum 1))]\<rparr>)))
     = [''https://example.com/api/v1/auth/login'']
   \<and> parse_params (Some [(''a'', Plain (JNum 1))]) = Inr ''?a=1''
   \<and> sent_urls (snd (getRequest (responds (JObj [(''status'', JNum 200)])) (appOperation None None)
       ((request_only ''login'')\<lparr>params := Some [(''a'', Plain (JNum 1))]\<rparr>)))
     \<noteq> [''https://example.com/api/v1/auth/login?a=1'']"
  by code_simp

theorem get_query_string_sent_witness:
  "map_of (requests (appOperation None None))
      (request ((request_only ''get_profile'')
         \<lparr>params := Some [(''a'', Plain (JNum 1)), (''b'', Plain JUndefined),
                          (''c'', Plain (JStr ''y''))]\<rparr>))
     = Some \<lparr>method' = GET, url = ''profile/''\<rparr>
   \<and> ''https://example.com/api/v1/profile/?a=1&c=y''
       \<in> set (sent_urls (snd (getRequest (responds (JObj [(''status'', JNum 200)]))
            (appOperation None None)
            ((request_only ''get_profile'')
               \<lparr>params := Some [(''a'', Plain (JNum 1)), (''b'', Plain JUndefined),
                                (''c'', Plain (JStr ''y''))]\<rparr>))))
   \<and> distinct (map fst [(''a'', Plain (JNum 1)), (''b'', Plain JUndefined),
                         (''c'', Plain (JStr ''y''))])
   \<and> list_all (\<lambda>kv. is_plain (snd kv))
        [(''a'', Plain (JNum 1)), (''b'', Plain JUndefined), (''c'', Plain (JStr ''y''))]
   \<and> spec_query_string [(''a'', Plain (JNum 1)), (''b'', Plain JUndefined),
                          (''c'', Plain (JStr ''y''))] = ''?a=1&c=y''"
proof -
  let ?ps = "[(''a'', Plain (JNum 1)), (''b'', Plain JUndefined), (''c'', Plain (JStr ''y''))]"
  let ?args = "(request_only ''get_profile'')\<lparr>params := Some ?ps\<rparr>"
  have reg: "map_of (requests (appOperation None None)) (request ?args)
     = Some \<lparr>method' = GET, url = ''profile/''\<rparr>"
    by (simp add: appOperation_def new_AppOperation_def api_requests_def request_only_def)
  have sent: "''https://example.com/api/v1/profile/?a=1&c=y''
       \<in> set (sent_urls (snd (getRequest (responds (JObj [(''status'', JNum 200)]))
            (appOperation None None) ?args)))"
    by code_simp
  have d: "distinct (map fst ?ps)"
    by simp
  have pl: "list_all (\<lambda>kv. is_plain (snd kv)) ?ps"
    by (simp add: is_plain_def)
  from get_query_string_sent
         [of "appOperation None None" ?args "\<lparr>method' = GET, url = ''profile/''\<rparr>"
             "''https://example.com/api/v1/profile/?a=1&c=y''"
             "responds (JObj [(''status'', JNum 200)])" ?ps, OF reg sent]
       d pl
  have a: "parse_params (Some ?ps) = Inr (spec_query_string ?ps)"
    and b: "parse_params (Some ?ps) = Inr ''?a=1&c=y''"
    by blast+
  have "Inr (spec_query_string ?ps) = (Inr ''?a=1&c=y'' :: thrown + string)"
    using b unfolding a .
  then have "spec_query_string ?ps = ''?a=1&c=y''"
    by (rule Inr_inject)
  with reg sent d pl show ?thesis by blast
qed

section \<open>The parsed body\<close>

text \<open>
  The parsed body is what the call returns when it is neither \<^verbatim>\<open>undefined\<close> nor \<^verbatim>\<open>null\<close>
  and the search for the message of a 422 does not throw (it is not made when
  notifications are suppressed or the status is not 422).
\<close>

lemma get_property_defined: "\<not> nullish data \<Longrightarrow> get_property data k = Inr (own_property data k)"
  by (simp add: get_property_def)

lemma fst_notify_success:
  "\<not> nullish data \<Longrightarrow> fst (notify_success g s data) = Inr ()"
  by (simp add: notify_success_def fst_and_then get_property_defined lift_def returns_def emit_def)

lemma fst_notify_error:
  assumes "\<not> nullish data"
    and "s \<or> own_property data ''status'' \<noteq> JNum 422 \<or> (\<exists>msg. first_error_message data = Inr msg)"
  shows "fst (notify_error g s data) = Inr ()"
  using assms
  by (auto simp: notify_error_def fst_and_then get_property_defined lift_def returns_def emit_def)

lemma sendRequest_returns_parsed_body:
  assumes "(u, opts) \<in> set (fetches (snd (sendRequest fetch g path m s ps b)))"
    and "fetch u opts = Inr resp" and "json resp = Inr data"
    and "\<not> nullish data"
    and "s \<or> own_property data ''status'' \<noteq> JNum 422 \<or> (\<exists>msg. first_error_message data = Inr msg)"
  shows "fst (sendRequest fetch g path m s ps b) = Inr data"
proof -
  from assms(1) obtain hs hs' rb q where
    base: "baseUrl g \<noteq> []" and bh: "fst (build_headers g) = Inr hs"
    and ab: "attach_body b hs = Inr (hs', rb)" and pp: "parse_params ps = Inr q"
    and u: "u = baseUrl g @ path @ q"
    and opts: "opts = \<lparr>options_method = m, options_headers = hs', options_body = rb\<rparr>"
    by (rule sent_call)
  have "fst (try_block fetch g s u opts) = Inr data"
    using assms(2,3)
    by (simp add: try_block_def fst_and_then emit_def lift_def returns_def
          fst_notify_success [OF assms(4)] fst_notify_error [OF assms(4,5)])
  then show ?thesis
    using base bh ab pp u opts by (simp add: fst_sendRequest fst_try_catch)
qed

text \<open>
  C8 fails on the code. A login answered with the JSON body
  \<^verbatim>\<open>{"status": 422, "errors": {}}\<close> reads \<^verbatim>\<open>[0]\<close> from \<^verbatim>\<open>undefined\<close> while it looks for
  the message to notify, the TypeError is caught, and the call returns the envelope of
  a caught exception in place of the parsed body. The same call with notifications
  suppressed returns the parsed body, so the notification logic does decide what is
  returned. A body that parses to \<^verbatim>\<open>null\<close> is lost the same way, suppressed or not, when
  \<^verbatim>\<open>data.status\<close> is read.
\<close>

theorem parsed_body_replaced:
  "fst (getRequest (responds (JObj [(''status'', JNum 422), (''errors'', JObj [])]))
         (setToastHandler silent_handler (appOperation None None)) (request_only ''login''))
     = Inr (JObj [(''status'', JNum 500),
                  (''message'', JStr ''Something went wrong''),
                  (''error'', JStr (error_message (cannot_read JUndefined ''0'')))])
   \<and> fst (getRequest (responds (JObj [(''status'', JNum 422), (''errors'', JObj [])]))
         (setToastHandler silent_handler (appOperation None None))
         ((request_only ''login'')\<lparr>suppressToast := Some True\<rparr>))
     = Inr (JObj [(''status'', JNum 422), (''errors'', JObj [])])
   \<and> fst (getRequest (responds JNull)
         (setToastHandler silent_handler (appOperation None None))
         ((request_only ''login'')\<lparr>suppressToast := Some True\<rparr>))
     = Inr (JObj [(''status'', JNum 500),
                  (''message'', JStr ''Something went wrong''),
                  (''error'', JStr (error_message (cannot_read JNull ''status'')))])"
  by code_simp

end
